theory Spec2Isabelle
  imports Main "HOL-Library.AList"
begin

section \<open>JavaScript values as the resolver sees them\<close>

text \<open>
  The resolver of \<^verbatim>\<open>image.ts\<close> walks untyped objects (\<^verbatim>\<open>any\<close>) produced from XML.
  A value is \<^verbatim>\<open>undefined\<close>, \<^verbatim>\<open>null\<close>, a string, an object (its own properties in
  insertion order) or an array. XML names never look like array indices, so insertion
  order is the enumeration order of every object built here.
\<close>

datatype jsval =
    JUndef
  | JNull
  | JStr string
  | JObj "(string \<times> jsval) list"
  | JArr "jsval list"

text \<open>
  Every \<^verbatim>\<open>throw\<close> and every rejected promise is a value: \<open>TypeError\<close> is what the
  runtime raises on a property read of \<^verbatim>\<open>undefined\<close>/\<^verbatim>\<open>null\<close> or a call of a
  non-function, \<open>Error msg\<close> is \<^verbatim>\<open>new Error(msg)\<close> of the source; the three messages of the
  source that are not ASCII have a constructor each.
\<close>

datatype error =
    TypeError
  | Error string
  | ErrorXmlParse string    \<comment> \<open>rejection of \<^verbatim>\<open>_parseMetaXmlToObject\<close>, carrying the path\<close>
  | ErrorNotLoaded          \<comment> \<open>thrown by \<^verbatim>\<open>_assertHasLoaded\<close>\<close>
  | ErrorSheetNotExist string \<comment> \<open>thrown by \<^verbatim>\<open>_assertSheetExist\<close>\<close>

definition thenE :: "error + 'a \<Rightarrow> ('a \<Rightarrow> error + 'b) \<Rightarrow> error + 'b" where
  "thenE r f = (case r of Inl e \<Rightarrow> Inl e | Inr v \<Rightarrow> f v)"

text \<open>\<^verbatim>\<open>!v\<close> is false exactly on the truthy values; objects and arrays are always truthy.\<close>

fun truthy :: "jsval \<Rightarrow> bool" where
  "truthy JUndef = False"
| "truthy JNull = False"
| "truthy (JStr s) = (s \<noteq> [])"
| "truthy (JObj kvs) = True"
| "truthy (JArr xs) = True"

text \<open>
  \<^verbatim>\<open>v[k]\<close> and \<^verbatim>\<open>v.k\<close>. Reading a property of \<^verbatim>\<open>undefined\<close> or \<^verbatim>\<open>null\<close> throws. On a
  string or an array the keys the source reads (element and attribute names) are neither
  \<^verbatim>\<open>length\<close>, an index nor a method, so the read gives \<^verbatim>\<open>undefined\<close>.
\<close>

fun getProp :: "jsval \<Rightarrow> string \<Rightarrow> error + jsval" where
  "getProp JUndef k = Inl TypeError"
| "getProp JNull k = Inl TypeError"
| "getProp (JObj kvs) k = Inr (case map_of kvs k of Some v \<Rightarrow> v | None \<Rightarrow> JUndef)"
| "getProp (JStr s) k = Inr JUndef"
| "getProp (JArr xs) k = Inr JUndef"

fun getPath :: "jsval \<Rightarrow> string list \<Rightarrow> error + jsval" where
  "getPath v [] = Inr v"
| "getPath v (k # ks) = thenE (getProp v k) (\<lambda>w. getPath w ks)"

text \<open>Decimal text of an array index, as property keys of arrays and strings are.\<close>

fun string_of_nat :: "nat \<Rightarrow> string" where
  "string_of_nat n =
     (if n < 10 then [char_of (48 + n)]
      else string_of_nat (n div 10) @ [char_of (48 + n mod 10)])"

declare string_of_nat.simps [simp del]

text \<open>The conversion a template literal \<^verbatim>\<open>`${v}`\<close> applies.\<close>

fun intercalate :: "string \<Rightarrow> string list \<Rightarrow> string" where
  "intercalate sep [] = []"
| "intercalate sep [s] = s"
| "intercalate sep (s # t # ss) = s @ sep @ intercalate sep (t # ss)"

fun toString :: "jsval \<Rightarrow> string" where
  "toString JUndef = ''undefined''"
| "toString JNull = ''null''"
| "toString (JStr s) = s"
| "toString (JObj kvs) = ''[object Object]''"
| "toString (JArr xs) =
     intercalate '','' (map (\<lambda>x. case x of JUndef \<Rightarrow> [] | JNull \<Rightarrow> [] | _ \<Rightarrow> toString x) xs)"

subsection \<open>The string methods the resolver calls\<close>

text \<open>\<^verbatim>\<open>s.lastIndexOf("/")\<close>: the last position of the character, or \<open>-1\<close>.\<close>

definition lastIndexOf :: "string \<Rightarrow> char \<Rightarrow> int" where
  "lastIndexOf s c =
     (case filter (\<lambda>i. s ! i = c) (rev [0..<length s]) of [] \<Rightarrow> - 1 | i # _ \<Rightarrow> int i)"

text \<open>\<^verbatim>\<open>s.substr(n)\<close> for \<open>n \<ge> 0\<close>, the only way the source calls it.\<close>

definition substr :: "string \<Rightarrow> int \<Rightarrow> string" where
  "substr s n = drop (nat n) s"

text \<open>\<^verbatim>\<open>s.replace("..", "xl")\<close>: only the first occurrence is replaced.\<close>

fun replaceDotDot :: "string \<Rightarrow> string" where
  "replaceDotDot (a # b # rest) =
     (if a = CHR ''.'' \<and> b = CHR ''.'' then ''xl'' @ rest else a # replaceDotDot (b # rest))"
| "replaceDotDot s = s"

text \<open>\<^verbatim>\<open>target.substr(target.lastIndexOf("/") + 1)\<close>\<close>

definition basename :: "string \<Rightarrow> string" where
  "basename target = substr target (lastIndexOf target CHR ''/'' + 1)"

section \<open>From XML to objects: \<^verbatim>\<open>_xml2Obj\<close>\<close>

text \<open>
  A part of the package is the XML it decodes to, or bytes that are no XML. An element has
  a name, attributes and children; a child is an element or a text node.
\<close>

datatype xml =
    Element string "(string \<times> string) list" "xml list"
  | Text string

datatype xdoc = XDoc "(string \<times> string) list option" xml
  \<comment> \<open>the attributes of the \<^verbatim>\<open><?xml ...?>\<close> declaration when there is one, and the root\<close>

datatype content = Xml xdoc | Binary "nat list"

type_synonym files = "string \<Rightarrow> content option"

text \<open>
  Modelled from the spec: the compact conversion \<^verbatim>\<open>xml2js\<close> of the package \<^verbatim>\<open>xml-js\<close>,
  which the repository imports and does not contain. Section 4.1: "child elements become
  nested keys holding either a single merged record or, for any element name in
  alwaysListElements, an array of merged records even when exactly one occurrence exists".
  A name met for the first time is stored as the value itself, or as a one-element array
  when the name is in \<open>alwaysArray\<close>; a name met again turns the entry into an array and
  appends. Attributes go under the attributes key, text under the text key; text that is
  only white space is dropped.
\<close>

definition addField :: "string list \<Rightarrow> string \<Rightarrow> jsval \<Rightarrow> (string \<times> jsval) list \<Rightarrow> (string \<times> jsval) list" where
  "addField alwaysArray name v cur =
     (case map_of cur name of
        None \<Rightarrow> cur @ [(name, if name \<in> set alwaysArray then JArr [v] else v)]
      | Some (JArr xs) \<Rightarrow> AList.update name (JArr (xs @ [v])) cur
      | Some x \<Rightarrow> AList.update name (JArr [x, v]) cur)"

definition blank :: "string \<Rightarrow> bool" where
  "blank t = list_all (\<lambda>c. c \<in> set [CHR '' '', CHR 0x09, CHR 0x0A, CHR 0x0B, CHR 0x0C, CHR 0x0D]) t"

definition attrObj :: "(string \<times> string) list \<Rightarrow> (string \<times> jsval) list" where
  "attrObj attrs =
     (if attrs = [] then []
      else [(''_attr'', JObj (foldl (\<lambda>ob (k, v). AList.update k (JStr v) ob) [] attrs))])"

fun compactOf :: "string list \<Rightarrow> xml \<Rightarrow> jsval" where
  "compactOf alwaysArray (Element name attrs kids) =
     JObj (foldl (\<lambda>cur kid.
             case kid of
               Text t \<Rightarrow> if blank t then cur else addField alwaysArray ''_text'' (JStr t) cur
             | Element n a ks \<Rightarrow> addField alwaysArray n (compactOf alwaysArray kid) cur)
           (attrObj attrs) kids)"
| "compactOf alwaysArray (Text t) = JStr t"

fun rootName :: "xml \<Rightarrow> string" where
  "rootName (Element name attrs kids) = name"
| "rootName (Text t) = ''_text''"

definition xml2js :: "string list \<Rightarrow> xdoc \<Rightarrow> jsval" where
  "xml2js alwaysArray d =
     (case d of XDoc decl root \<Rightarrow>
        JObj (addField alwaysArray (rootName root) (compactOf alwaysArray root)
               (case decl of None \<Rightarrow> [] | Some a \<Rightarrow> [(''_declaration'', JObj (attrObj a))])))"

subsection \<open>\<^verbatim>\<open>_mergeAttrAndText\<close>\<close>

text \<open>
  \<^verbatim>\<open>typeof v === "object"\<close>. (\<^verbatim>\<open>null\<close> has that type too, and \<^verbatim>\<open>Object.keys(null)\<close> would
  throw; the conversion above never yields \<^verbatim>\<open>null\<close>, and the merge below leaves it alone.)
\<close>

fun typeofObject :: "jsval \<Rightarrow> bool" where
  "typeofObject (JObj kvs) = True"
| "typeofObject (JArr xs) = True"
| "typeofObject v = False"

text \<open>
  The inner calls are \<^verbatim>\<open>_mergeAttrAndText(attrs, newObj[k], k, newObj)\<close> with
  \<^verbatim>\<open>newObj[k] === attrs\<close>: the object is rewritten in place while the snapshot
  \<^verbatim>\<open>Object.keys(obj)\<close> is walked, and the text branch replaces the object itself in its
  parent. \<open>mergeInner v\<close> is the value the parent holds under the key after the call.

  Each key is visited once, so a value is merged at most once, when its key is visited.
  The state of the walk pairs every property with its current value and the merged image
  that a visit would store; \<open>A\<close> are the properties \<^verbatim>\<open>Object.assign\<close> copies from the value
  under the attributes key, paired likewise.
\<close>

type_synonym mstate = "(string \<times> jsval \<times> jsval) list \<times> jsval option"

definition mergeStep :: "(string \<times> jsval \<times> jsval) list \<Rightarrow> mstate \<Rightarrow> string \<Rightarrow> mstate" where
  "mergeStep A st k =
     (case st of (ob, repl) \<Rightarrow>
        (case (case map_of ob k of Some p \<Rightarrow> p | None \<Rightarrow> (JUndef, JUndef)) of (attrs, m) \<Rightarrow>
           if k = ''_attr'' then
             (AList.delete ''_attr'' (foldl (\<lambda>acc (k', p). AList.update k' p acc) ob A), repl)
           else if k = ''_text'' then (ob, Some attrs)
           else (AList.update k (m, m) ob, repl)))"

definition finishMerge :: "mstate \<Rightarrow> jsval" where
  "finishMerge st =
     (case st of (ob, repl) \<Rightarrow>
        (case repl of Some t \<Rightarrow> t | None \<Rightarrow> JObj (map (\<lambda>(k, v, m). (k, v)) ob)))"

lemma size_entry_less:
  "(k, v) \<in> set kvs \<Longrightarrow> size v < size (JObj kvs)"
  by (induction kvs) auto

lemma size_elem_less: "v \<in> set xs \<Longrightarrow> size v < size (JArr xs)"
  by (induction xs) auto

lemma size_attr_entry_less:
  "map_of kvs k = Some (JObj ps) \<Longrightarrow> (a, b) \<in> set ps \<Longrightarrow> size b < size (JObj kvs)"
  using size_entry_less [of k "JObj ps" kvs] size_entry_less [of a b ps]
  by (auto dest: map_of_SomeD)

lemma size_attr_elem_less:
  "map_of kvs k = Some (JArr xs) \<Longrightarrow> b \<in> set xs \<Longrightarrow> size b < size (JObj kvs)"
  using size_entry_less [of k "JArr xs" kvs] size_elem_less [of b xs]
  by (auto dest: map_of_SomeD)

lemma enumerate_mem: "(i, v) \<in> set (enumerate n xs) \<Longrightarrow> v \<in> set xs"
  by (auto simp: in_set_enumerate_eq)

function mergeInner :: "jsval \<Rightarrow> jsval" where
  "mergeInner (JObj kvs) =
     (let st0 = map (\<lambda>(k, v). (k, v, if typeofObject v then mergeInner v else v)) kvs;
          A = (case map_of kvs ''_attr'' of
                 Some (JObj ps) \<Rightarrow>
                   map (\<lambda>(k, v). (k, v, if typeofObject v then mergeInner v else v)) ps
               | Some (JArr xs) \<Rightarrow>
                   map (\<lambda>(i, v). (string_of_nat i, v, if typeofObject v then mergeInner v else v))
                     (enumerate 0 xs)
               | Some (JStr s) \<Rightarrow>
                   map (\<lambda>(i, c). (string_of_nat i, JStr [c], JStr [c])) (enumerate 0 s)
               | _ \<Rightarrow> [])
      in finishMerge (foldl (mergeStep A) (st0, None) (map fst kvs)))"
| "mergeInner (JArr xs) = JArr (map (\<lambda>v. if typeofObject v then mergeInner v else v) xs)"
| "mergeInner JUndef = JUndef"
| "mergeInner JNull = JNull"
| "mergeInner (JStr s) = JStr s"
  by pat_completeness auto

termination
proof (relation "measure size", goal_cases)
  case 1
  show ?case by simp
next
  case 2
  then show ?case by (auto dest: size_entry_less)
next
  case 3
  then show ?case by (auto dest: size_attr_entry_less)
next
  case 4
  then show ?case by (auto dest: size_attr_elem_less enumerate_mem)
next
  case 5
  then show ?case by (auto dest: size_elem_less)
qed

text \<open>\<^verbatim>\<open>Object.assign(target, source)\<close>: the own enumerable properties of the source.\<close>

fun ownProps :: "jsval \<Rightarrow> (string \<times> jsval) list" where
  "ownProps (JObj ps) = ps"
| "ownProps (JArr xs) = map (\<lambda>(i, v). (string_of_nat i, v)) (enumerate 0 xs)"
| "ownProps (JStr s) = map (\<lambda>(i, c). (string_of_nat i, JStr [c])) (enumerate 0 s)"
| "ownProps v = []"

text \<open>
  The outer call \<^verbatim>\<open>_mergeAttrAndText(obj, newObj)\<close> fills the fresh \<^verbatim>\<open>newObj\<close> and has no
  parent, so its text branch does nothing.
\<close>

definition mergeAttrAndText :: "jsval \<Rightarrow> jsval" where
  "mergeAttrAndText obj =
     JObj (foldl (\<lambda>newObj (k, attrs).
             if k = ''_attr'' then
               AList.delete ''_attr'' (foldl (\<lambda>acc (k', p). AList.update k' p acc) newObj (ownProps attrs))
             else if k = ''_text'' then newObj
             else AList.update k (if typeofObject attrs then mergeInner attrs else attrs) newObj)
           [] (ownProps obj))"

text \<open>The list of always-array element names is the one the source passes.\<close>

definition alwaysArray :: "string list" where
  "alwaysArray = [''xdr:twoCellAnchor'', ''Relationship'', ''sheet'']"

definition xml2Obj :: "xdoc \<Rightarrow> jsval" where
  "xml2Obj d = mergeAttrAndText (xml2js alwaysArray d)"

section \<open>The resolver: \<^verbatim>\<open>ExcelImageResolver\<close>\<close>

text \<open>
  \<^verbatim>\<open>Number(v)\<close> is used only to make the coordinates, which are later property keys of
  the grid. A number is kept as what it is as a key: an array index, or any other number
  (negative, fractional, \<^verbatim>\<open>NaN\<close>, \<open>2^32 - 1\<close> or more) with the text of its key. The
  conversion itself belongs to the language, so the resolver takes it as the parameter
  \<open>num\<close>.
\<close>

datatype jsnum = Index nat | NonIndex string

record cell =
  row :: jsnum
  col :: jsnum

record imageAnchor =
  fromCell :: cell
  toCell :: cell

text \<open>A \<^verbatim>\<open>File\<close> is its name and its bytes; \<^verbatim>\<open>null\<close> is \<open>None\<close>.\<close>

type_synonym jsfile = "string \<times> content"

record imageMetadata = imageAnchor +
  imageFile :: "jsfile option"

definition getDataFromWbFile :: "files \<Rightarrow> string \<Rightarrow> content option" where
  "getDataFromWbFile fs path = fs path"

text \<open>
  \<^verbatim>\<open>_parseMetaXmlToObject\<close>: \<^verbatim>\<open>null\<close> for a part that is not in the package. A part that is
  empty or holds white space only has no element, and the conversion gives the empty
  object for it; any other text that is no XML makes the parser throw, and the promise is
  rejected.
\<close>

definition whiteBytes :: "nat list \<Rightarrow> bool" where
  "whiteBytes b = list_all (\<lambda>c. c \<in> set [9, 10, 13, 32]) b"

definition parseMetaXmlToObject :: "files \<Rightarrow> string \<Rightarrow> error + jsval" where
  "parseMetaXmlToObject fs path =
     (case getDataFromWbFile fs path of
        None \<Rightarrow> Inr JNull
      | Some (Xml d) \<Rightarrow> Inr (xml2Obj d)
      | Some (Binary b) \<Rightarrow> if whiteBytes b then Inr (JObj []) else Inl (ErrorXmlParse path))"

definition parseMetaImageToFile :: "files \<Rightarrow> string \<Rightarrow> string \<Rightarrow> jsfile option" where
  "parseMetaImageToFile fs path filename =
     (case getDataFromWbFile fs path of None \<Rightarrow> None | Some d \<Rightarrow> Some (filename, d))"

subsection \<open>\<^verbatim>\<open>_resolveDrawing\<close>\<close>

text \<open>
  \<^verbatim>\<open>relationships.find(r => { return r.Id = drawingRelId; })\<close>. The callback assigns: it
  stores the requested id into the entry and returns the id, so the first entry is found
  whenever the id is truthy. A receiver that is no array has no \<^verbatim>\<open>find\<close>; the assignment
  throws on \<^verbatim>\<open>undefined\<close>, \<^verbatim>\<open>null\<close> and, class bodies being strict code, on a string.
\<close>

fun findRelationship :: "jsval list \<Rightarrow> jsval \<Rightarrow> error + jsval" where
  "findRelationship [] drawingRelId = Inr JUndef"
| "findRelationship (r # rs) drawingRelId =
     (case r of
        JObj kvs \<Rightarrow>
          if truthy drawingRelId then Inr (JObj (AList.update ''Id'' drawingRelId kvs))
          else findRelationship rs drawingRelId
      | JArr xs \<Rightarrow>
          if truthy drawingRelId then Inr (JArr xs) else findRelationship rs drawingRelId
      | _ \<Rightarrow> Inl TypeError)"

definition find_js :: "jsval \<Rightarrow> jsval \<Rightarrow> error + jsval" where
  "find_js relationships drawingRelId =
     (case relationships of
        JArr rs \<Rightarrow> findRelationship rs drawingRelId
      | _ \<Rightarrow> Inl TypeError)"

definition resolveDrawing :: "files \<Rightarrow> jsval \<Rightarrow> error + (jsval \<times> jsval) option" where
  "resolveDrawing fs sheetId =
     thenE (parseMetaXmlToObject fs (''xl/worksheets/sheet'' @ toString sheetId @ ''.xml''))
       (\<lambda>sheetXmlObj.
     thenE (getPath sheetXmlObj [''worksheet'', ''drawing''])
       (\<lambda>drawing.
     if \<not> truthy drawing then Inr None
     else
     thenE (getProp drawing ''r:id'')
       (\<lambda>drawingRelId.
     thenE (parseMetaXmlToObject fs (''xl/worksheets/_rels/sheet'' @ toString sheetId @ ''.xml.rels''))
       (\<lambda>sheetRelsXmlObj.
     if \<not> truthy sheetRelsXmlObj then Inr None
     else
     thenE (getPath sheetRelsXmlObj [''Relationships'', ''Relationship''])
       (\<lambda>relationships.
     thenE (find_js relationships drawingRelId)
       (\<lambda>relationshipOfDrawing.
     if \<not> truthy relationshipOfDrawing then Inr None
     else
     thenE (getProp relationshipOfDrawing ''Target'')
       (\<lambda>drawingTarget.
     case drawingTarget of
       JStr t \<Rightarrow>
         thenE (parseMetaXmlToObject fs (replaceDotDot t))
           (\<lambda>drawingXmlObj.
         thenE (parseMetaXmlToObject fs (''xl/drawings/_rels/'' @ basename t @ ''.rels''))
           (\<lambda>drawingRelXmlObj.
         Inr (Some (drawingXmlObj, drawingRelXmlObj))))
     | _ \<Rightarrow> Inl TypeError)))))))"

subsection \<open>\<^verbatim>\<open>_resolveSheetImages\<close>\<close>

text \<open>\<^verbatim>\<open>v || []\<close>\<close>

definition orEmpty :: "jsval \<Rightarrow> jsval" where
  "orEmpty v = (if truthy v then v else JArr [])"

text \<open>
  \<^verbatim>\<open>oneCellAnchors.concat(twoCellAnchors)\<close> followed by \<^verbatim>\<open>.forEach\<close>. An array argument is
  spread, any other is appended as one element. An object has no \<^verbatim>\<open>concat\<close>; a string has
  one, which gives a string, and that has no \<^verbatim>\<open>forEach\<close>: both end in a \<open>TypeError\<close> before
  any anchor is read.
\<close>

definition concatAnchors :: "jsval \<Rightarrow> jsval \<Rightarrow> error + jsval list" where
  "concatAnchors oneCellAnchors twoCellAnchors =
     (case oneCellAnchors of
        JArr xs \<Rightarrow> Inr (xs @ (case twoCellAnchors of JArr ys \<Rightarrow> ys | v \<Rightarrow> [v]))
      | _ \<Rightarrow> Inl TypeError)"

text \<open>The body of the \<^verbatim>\<open>forEach\<close> up to the map update: the id and the two cells.\<close>

definition parseAnchor :: "(jsval \<Rightarrow> jsnum) \<Rightarrow> jsval \<Rightarrow> error + (jsval \<times> imageAnchor)" where
  "parseAnchor num anchor =
     thenE (getPath anchor [''xdr:pic'', ''xdr:blipFill'', ''a:blip'', ''r:embed''])
       (\<lambda>id.
     thenE (getPath anchor [''xdr:from'', ''xdr:row''])
       (\<lambda>fromRow.
     thenE (getPath anchor [''xdr:from'', ''xdr:col''])
       (\<lambda>fromCol.
     thenE (getProp anchor ''xdr:to'')
       (\<lambda>declaredTo.
     let isOneCellAnchors = \<not> truthy declaredTo;
         key = ''xdr:'' @ (if isOneCellAnchors then ''from'' else ''to'')
     in
     thenE (getPath anchor [key, ''xdr:row''])
       (\<lambda>toRow.
     thenE (getPath anchor [key, ''xdr:col''])
       (\<lambda>toCol.
     Inr (id, \<lparr>fromCell = \<lparr>row = num fromRow, col = num fromCol\<rparr>,
               toCell = \<lparr>row = num toRow, col = num toCol\<rparr>\<rparr>)))))))"

text \<open>
  A \<^verbatim>\<open>Map\<close> compares keys by SameValueZero: strings, \<^verbatim>\<open>undefined\<close> and \<^verbatim>\<open>null\<close> by value,
  objects by identity. The keys come from different places of freshly parsed documents, so
  two objects among them are never the same one.
\<close>

fun sameValueZero :: "jsval \<Rightarrow> jsval \<Rightarrow> bool" where
  "sameValueZero (JObj a) b = False"
| "sameValueZero (JArr a) b = False"
| "sameValueZero a b = (a = b)"

fun mapGet :: "(jsval \<times> 'v) list \<Rightarrow> jsval \<Rightarrow> 'v option" where
  "mapGet [] k = None"
| "mapGet ((k', v) # m) k = (if sameValueZero k' k then Some v else mapGet m k)"

fun mapSet :: "(jsval \<times> 'v) list \<Rightarrow> jsval \<Rightarrow> 'v \<Rightarrow> (jsval \<times> 'v) list" where
  "mapSet [] k v = [(k, v)]"
| "mapSet ((k', v') # m) k v =
     (if sameValueZero k' k then (k', v) # m else (k', v') # mapSet m k v)"

text \<open>
  The \<^verbatim>\<open>forEach\<close> over the anchors: \<^verbatim>\<open>let entity = map.get(id); if (!entity) entity = [];
  entity.push({from, to}); map.set(id, entity)\<close>. It stops at the first anchor that throws.
\<close>

fun collectAnchors ::
  "(jsval \<Rightarrow> jsnum) \<Rightarrow> jsval list \<Rightarrow> (jsval \<times> imageAnchor list) list
     \<Rightarrow> error + (jsval \<times> imageAnchor list) list" where
  "collectAnchors num [] imageAnchorsMap = Inr imageAnchorsMap"
| "collectAnchors num (anchor # anchors) imageAnchorsMap =
     thenE (parseAnchor num anchor)
       (\<lambda>(id, a).
          let entity = (case mapGet imageAnchorsMap id of None \<Rightarrow> [] | Some e \<Rightarrow> e)
          in collectAnchors num anchors (mapSet imageAnchorsMap id (entity @ [a])))"

text \<open>The callback of \<^verbatim>\<open>relationships.flatMap\<close>.\<close>

definition relationImages ::
  "files \<Rightarrow> (jsval \<times> imageAnchor list) list \<Rightarrow> jsval \<Rightarrow> error + imageMetadata list" where
  "relationImages fs imageAnchorsMap r =
     thenE (getProp r ''Id'')
       (\<lambda>id.
     thenE (getProp r ''Target'')
       (\<lambda>target.
     case target of
       JStr t \<Rightarrow>
         (let filename = basename t;
              path = ''xl/media/'' @ filename;
              f = parseMetaImageToFile fs path filename
          in case mapGet imageAnchorsMap id of
               None \<Rightarrow> Inl (Error ''image anchor not found'')
             | Some imageAnchors \<Rightarrow>
                 Inr (map (\<lambda>anchor. \<lparr>fromCell = fromCell anchor, toCell = toCell anchor, imageFile = f\<rparr>)
                        imageAnchors))
     | _ \<Rightarrow> Inl TypeError))"

fun flatMap :: "('a \<Rightarrow> error + 'b list) \<Rightarrow> 'a list \<Rightarrow> error + 'b list" where
  "flatMap f [] = Inr []"
| "flatMap f (x # xs) = thenE (f x) (\<lambda>ys. thenE (flatMap f xs) (\<lambda>zs. Inr (ys @ zs)))"

text \<open>The part of \<^verbatim>\<open>_resolveSheetImages\<close> after the drawing has been found.\<close>

definition sheetImages :: "(jsval \<Rightarrow> jsnum) \<Rightarrow> files \<Rightarrow> jsval \<Rightarrow> jsval \<Rightarrow> error + imageMetadata list" where
  "sheetImages num fs drawingXmlObj drawingRelXmlObj =
     thenE (getProp drawingXmlObj ''xdr:wsDr'')
       (\<lambda>wsDr.
     thenE (getProp wsDr ''xdr:twoCellAnchor'')
       (\<lambda>two.
     thenE (getProp wsDr ''xdr:oneCellAnchor'')
       (\<lambda>one.
     thenE (concatAnchors (orEmpty one) (orEmpty two))
       (\<lambda>imageAnchors.
     thenE (collectAnchors num imageAnchors [])
       (\<lambda>imageAnchorsMap.
     thenE (getPath drawingRelXmlObj [''Relationships'', ''Relationship''])
       (\<lambda>relationships.
     case relationships of
       JArr rs \<Rightarrow> flatMap (relationImages fs imageAnchorsMap) rs
     | _ \<Rightarrow> Inl TypeError))))))"

definition resolveSheetImages :: "(jsval \<Rightarrow> jsnum) \<Rightarrow> files \<Rightarrow> jsval \<Rightarrow> error + imageMetadata list" where
  "resolveSheetImages num fs sheetId =
     thenE (resolveDrawing fs sheetId)
       (\<lambda>drawingObj.
          case drawingObj of
            None \<Rightarrow> Inr []
          | Some (drawingXmlObj, drawingRelXmlObj) \<Rightarrow>
              sheetImages num fs drawingXmlObj drawingRelXmlObj)"

subsection \<open>\<^verbatim>\<open>_resolveSheetMap\<close>, \<^verbatim>\<open>_resolveAllSheetImages\<close>, \<^verbatim>\<open>resolveImageLocations\<close>\<close>

record sheet =
  id_sheet :: jsval
  name_sheet :: jsval

fun mapE :: "('a \<Rightarrow> error + 'b) \<Rightarrow> 'a list \<Rightarrow> error + 'b list" where
  "mapE f [] = Inr []"
| "mapE f (x # xs) = thenE (f x) (\<lambda>y. thenE (mapE f xs) (\<lambda>ys. Inr (y # ys)))"

definition resolveSheetMap :: "files \<Rightarrow> error + (jsval \<times> sheet) list" where
  "resolveSheetMap fs =
     thenE (parseMetaXmlToObject fs ''xl/workbook.xml'')
       (\<lambda>wbXmlObj.
     thenE (getPath wbXmlObj [''workbook'', ''sheets'', ''sheet''])
       (\<lambda>sheets.
     case sheets of
       JArr ss \<Rightarrow>
         thenE (mapE (\<lambda>sh. thenE (getProp sh ''name'')
                          (\<lambda>n. thenE (getProp sh ''sheetId'')
                          (\<lambda>i. Inr (n, \<lparr>id_sheet = i, name_sheet = n\<rparr>)))) ss)
           (\<lambda>entries. Inr (foldl (\<lambda>m (k, v). mapSet m k v) [] entries))
     | _ \<Rightarrow> Inl TypeError))"

text \<open>
  \<^verbatim>\<open>metadatasMap\<close> is a plain object keyed by sheet name. Its own keys enumerate as the
  language orders them: the keys that are array indices (decimal digits with no leading
  zero, below \<open>2^32 - 1\<close>) first, ascending, then the others in insertion order. An
  assignment to a key that exists keeps its place. An assignment to the key \<^verbatim>\<open>__proto__\<close>
  adds no key: it makes the assigned array the prototype of the object.
\<close>

definition int_of_digits :: "string \<Rightarrow> int" where
  "int_of_digits s = foldl (\<lambda>n c. 10 * n + (of_char c - 48)) 0 s"

definition isArrayIndex :: "string \<Rightarrow> bool" where
  "isArrayIndex s =
     (s \<noteq> [] \<and> list_all (\<lambda>c. c \<in> set ''0123456789'') s
      \<and> (hd s = CHR ''0'') = (s = ''0'') \<and> int_of_digits s < 4294967295)"

definition indexBefore :: "string \<Rightarrow> string \<times> 'v \<Rightarrow> bool" where
  "indexBefore k e = (isArrayIndex (fst e) \<and> int_of_digits (fst e) < int_of_digits k)"

definition objSet :: "(string \<times> 'v) list \<Rightarrow> string \<Rightarrow> 'v \<Rightarrow> (string \<times> 'v) list" where
  "objSet ob k v =
     (if map_of ob k \<noteq> None then AList.update k v ob
      else if isArrayIndex k then
        takeWhile (indexBefore k) ob @ [(k, v)] @ dropWhile (indexBefore k) ob
      else ob @ [(k, v)])"

text \<open>The object: its own properties, and the array that is its prototype if one was set.\<close>

type_synonym imageMetadatasMap = "(string \<times> imageMetadata list) list \<times> imageMetadata list option"

definition assignSheet :: "imageMetadatasMap \<Rightarrow> string \<Rightarrow> imageMetadata list \<Rightarrow> imageMetadatasMap" where
  "assignSheet metadatasMap sheetName images =
     (if sheetName = ''__proto__'' then (fst metadatasMap, Some images)
      else (objSet (fst metadatasMap) sheetName images, snd metadatasMap))"

fun resolveAllSheetImages ::
  "(jsval \<Rightarrow> jsnum) \<Rightarrow> files \<Rightarrow> (jsval \<times> sheet) list \<Rightarrow> string list \<Rightarrow> imageMetadatasMap
     \<Rightarrow> error + imageMetadatasMap" where
  "resolveAllSheetImages num fs sheetMap [] metadatasMap = Inr metadatasMap"
| "resolveAllSheetImages num fs sheetMap (sheetName # rest) metadatasMap =
     (case mapGet sheetMap (JStr sheetName) of
        None \<Rightarrow> Inl (Error ''sheet not found'')
      | Some sh \<Rightarrow>
          thenE (resolveSheetImages num fs (id_sheet sh))
            (\<lambda>images.
               resolveAllSheetImages num fs sheetMap rest (assignSheet metadatasMap sheetName images)))"

text \<open>
  The workbook object of the spreadsheet library: the sheet names in workbook order, the
  sheets by name and the parts of the package (\<^verbatim>\<open>bookFiles: true\<close>).
\<close>

record 'sheet workbook =
  SheetNames :: "string list"
  Sheets :: "string \<Rightarrow> 'sheet option"
  files :: files

definition resolveImageLocations :: "(jsval \<Rightarrow> jsnum) \<Rightarrow> 'sheet workbook \<Rightarrow> error + imageMetadatasMap" where
  "resolveImageLocations num wb =
     thenE (resolveSheetMap (files wb))
       (\<lambda>sheetMap. resolveAllSheetImages num (files wb) sheetMap (SheetNames wb) ([], None))"

subsection \<open>The earlier \<^verbatim>\<open>_resolveSheetImages\<close>\<close>

text \<open>
  The sources hold a second, earlier text of the resolver (the one in \<^verbatim>\<open>src/excel/image.ts\<close>):
  it reads the two-cell anchors only, keeps one anchor per relationship id in a
  \<^verbatim>\<open>Map\<close> built from pairs, and maps every relationship to one image. The later text above,
  with one-cell anchors and a list of anchors per id, is the one the properties are about;
  the earlier one is kept to show where the two differ.
\<close>

definition parseAnchor_earlier :: "(jsval \<Rightarrow> jsnum) \<Rightarrow> jsval \<Rightarrow> error + (jsval \<times> imageAnchor)" where
  "parseAnchor_earlier num anchor =
     thenE (getPath anchor [''xdr:pic'', ''xdr:blipFill'', ''a:blip'', ''r:embed''])
       (\<lambda>id.
     thenE (getPath anchor [''xdr:from'', ''xdr:row''])
       (\<lambda>fromRow.
     thenE (getPath anchor [''xdr:from'', ''xdr:col''])
       (\<lambda>fromCol.
     thenE (getPath anchor [''xdr:to'', ''xdr:row''])
       (\<lambda>toRow.
     thenE (getPath anchor [''xdr:to'', ''xdr:col''])
       (\<lambda>toCol.
     Inr (id, \<lparr>fromCell = \<lparr>row = num fromRow, col = num fromCol\<rparr>,
               toCell = \<lparr>row = num toRow, col = num toCol\<rparr>\<rparr>))))))"

definition relationImage_earlier ::
  "files \<Rightarrow> (jsval \<times> imageAnchor) list \<Rightarrow> jsval \<Rightarrow> error + imageMetadata" where
  "relationImage_earlier fs imageAnchorsMap r =
     thenE (getProp r ''Id'')
       (\<lambda>id.
     thenE (getProp r ''Target'')
       (\<lambda>target.
     case target of
       JStr t \<Rightarrow>
         (let filename = basename t;
              path = ''xl/media/'' @ filename;
              f = parseMetaImageToFile fs path filename
          in case mapGet imageAnchorsMap id of
               None \<Rightarrow> Inl (Error ''image anchor not found'')
             | Some imageAnchor \<Rightarrow>
                 Inr \<lparr>fromCell = fromCell imageAnchor, toCell = toCell imageAnchor, imageFile = f\<rparr>)
     | _ \<Rightarrow> Inl TypeError))"

definition sheetImages_earlier ::
  "(jsval \<Rightarrow> jsnum) \<Rightarrow> files \<Rightarrow> jsval \<Rightarrow> jsval \<Rightarrow> error + imageMetadata list" where
  "sheetImages_earlier num fs drawingXmlObj drawingRelXmlObj =
     thenE (getPath drawingXmlObj [''xdr:wsDr'', ''xdr:twoCellAnchor''])
       (\<lambda>imageAnchors.
     case imageAnchors of
       JArr anchors \<Rightarrow>
         thenE (mapE (parseAnchor_earlier num) anchors)
           (\<lambda>entries.
         thenE (getPath drawingRelXmlObj [''Relationships'', ''Relationship''])
           (\<lambda>relationships.
         case relationships of
           JArr rs \<Rightarrow>
             mapE (relationImage_earlier fs (foldl (\<lambda>m (k, v). mapSet m k v) [] entries)) rs
         | _ \<Rightarrow> Inl TypeError))
     | _ \<Rightarrow> Inl TypeError)"

section \<open>The rewrite: class \<^verbatim>\<open>Excel\<close>\<close>

text \<open>
  The grid \<^verbatim>\<open>data\<close> is an array of row arrays; both may have holes (\<open>None\<close>). A write at
  an index beyond the end grows the array and leaves holes before the index. A write under
  a key that is no array index adds a named property to the array, which is no element of it.
\<close>

type_synonym 'c grid = "'c option list option list"

definition getIndex :: "'a option list \<Rightarrow> nat \<Rightarrow> 'a option" where
  "getIndex xs i = (if i < length xs then xs ! i else None)"

definition setIndex :: "'a option list \<Rightarrow> nat \<Rightarrow> 'a \<Rightarrow> 'a option list" where
  "setIndex xs i v =
     (if i < length xs then xs[i := Some v]
      else xs @ replicate (i - length xs) None @ [Some v])"

text \<open>
  \<^verbatim>\<open>data[r] = data[r] || []; data[r][c] = str\<close>, as far as the elements of the grid go.
\<close>

definition writeCell :: "'c grid \<Rightarrow> cell \<Rightarrow> 'c \<Rightarrow> 'c grid" where
  "writeCell data at str =
     (case row at of
        NonIndex k \<Rightarrow> data
      | Index r \<Rightarrow>
          (let old = (case getIndex data r of Some cells \<Rightarrow> cells | None \<Rightarrow> [])
           in setIndex data r
                (case col at of Index c \<Rightarrow> setIndex old c str | NonIndex k \<Rightarrow> old)))"

text \<open>
  The callback may do anything (an upload, say) and may reject: it takes the state of the
  world and returns the next one with its outcome.
\<close>

type_synonym ('c, 'w) callback = "jsfile option \<Rightarrow> cell \<Rightarrow> 'w \<Rightarrow> (error + 'c) \<times> 'w"

text \<open>The inner loop \<^verbatim>\<open>for (const location of locations)\<close>, each call awaited in turn.\<close>

fun writeLocations ::
  "('c, 'w) callback \<Rightarrow> imageMetadata list \<Rightarrow> 'c grid \<Rightarrow> 'w \<Rightarrow> (error + 'c grid) \<times> 'w" where
  "writeLocations cb [] data w = (Inr data, w)"
| "writeLocations cb (location # locations) data w =
     (case cb (imageFile location) (fromCell location) w of
        (Inl e, w') \<Rightarrow> (Inl e, w')
      | (Inr str, w') \<Rightarrow> writeLocations cb locations (writeCell data (fromCell location) str) w')"

text \<open>
  The two functions of the spreadsheet library that read a sheet as a grid and write a grid
  back into a sheet are parameters.
\<close>

record ('sheet, 'c) xlsx =
  sheet_to_json :: "'sheet option \<Rightarrow> 'c grid"
  sheet_add_aoa :: "'sheet \<Rightarrow> 'c grid \<Rightarrow> 'sheet"

definition getDataBySheetName :: "('sheet, 'c) xlsx \<Rightarrow> 'sheet workbook \<Rightarrow> string \<Rightarrow> 'c grid" where
  "getDataBySheetName X wb sheetName = sheet_to_json X (Sheets wb sheetName)"

definition setData ::
  "('sheet, 'c) xlsx \<Rightarrow> 'sheet workbook \<Rightarrow> string \<Rightarrow> 'c grid \<Rightarrow> error + 'sheet workbook" where
  "setData X wb sheetName data =
     (case Sheets wb sheetName of
        None \<Rightarrow> Inl (ErrorSheetNotExist sheetName)
      | Some sh \<Rightarrow> Inr (wb\<lparr>Sheets := (Sheets wb)(sheetName \<mapsto> sheet_add_aoa X sh data)\<rparr>))"

text \<open>The outer loop \<^verbatim>\<open>for (let sheetName in locationsMap)\<close> over the own keys.\<close>

fun transformSheets ::
  "('sheet, 'c) xlsx \<Rightarrow> ('c, 'w) callback \<Rightarrow> (string \<times> imageMetadata list) list \<Rightarrow> 'sheet workbook \<Rightarrow> 'w
     \<Rightarrow> (error + 'sheet workbook) \<times> 'w" where
  "transformSheets X cb [] wb w = (Inr wb, w)"
| "transformSheets X cb ((sheetName, locations) # rest) wb w =
     (case writeLocations cb locations (getDataBySheetName X wb sheetName) w of
        (Inl e, w') \<Rightarrow> (Inl e, w')
      | (Inr data, w') \<Rightarrow>
          (case setData X wb sheetName data of
             Inl e \<Rightarrow> (Inl e, w')
           | Inr wb' \<Rightarrow> transformSheets X cb rest wb' w'))"

text \<open>
  An \<^verbatim>\<open>Excel\<close> object holds the workbook and the resolver made from it once \<^verbatim>\<open>load\<close> has
  run, and neither before.
\<close>

type_synonym 'sheet excel = "'sheet workbook option"

definition load :: "'sheet workbook \<Rightarrow> 'sheet excel" where
  "load wb = Some wb"

text \<open>
  After the own keys \<^verbatim>\<open>for ... in\<close> goes on with the enumerable keys of the prototype that
  no own key hides: the indices of the array, when a sheet named \<^verbatim>\<open>__proto__\<close> made one the
  prototype. Under such a key \<^verbatim>\<open>locationsMap[sheetName]\<close> is an image location, which
  \<^verbatim>\<open>for ... of\<close> cannot iterate: the loop throws at the first of them.
\<close>

definition inheritedKeys :: "imageMetadatasMap \<Rightarrow> string list" where
  "inheritedKeys locationsMap =
     (case snd locationsMap of
        None \<Rightarrow> []
      | Some images \<Rightarrow>
          filter (\<lambda>k. map_of (fst locationsMap) k = None) (map string_of_nat [0..<length images]))"

text \<open>
  \<^verbatim>\<open>transformImagesToStr\<close> starts with \<^verbatim>\<open>this.imageResolver.resolveImageLocations()\<close>; on an
  object that was never loaded \<^verbatim>\<open>this.imageResolver\<close> is \<^verbatim>\<open>undefined\<close>.
\<close>

definition transformImagesToStr ::
  "('sheet, 'c) xlsx \<Rightarrow> (jsval \<Rightarrow> jsnum) \<Rightarrow> ('c, 'w) callback \<Rightarrow> 'sheet excel \<Rightarrow> 'w
     \<Rightarrow> (error + 'sheet workbook) \<times> 'w" where
  "transformImagesToStr X num cb this w =
     (case this of
        None \<Rightarrow> (Inl TypeError, w)
      | Some wb \<Rightarrow>
          (case resolveImageLocations num wb of
             Inl e \<Rightarrow> (Inl e, w)
           | Inr locationsMap \<Rightarrow>
               (case transformSheets X cb (fst locationsMap) wb w of
                  (Inl e, w') \<Rightarrow> (Inl e, w')
                | (Inr wb', w') \<Rightarrow>
                    if inheritedKeys locationsMap = [] then (Inr wb', w') else (Inl TypeError, w'))))"

definition assertHasLoaded :: "'sheet excel \<Rightarrow> error + 'sheet workbook" where
  "assertHasLoaded this = (case this of None \<Rightarrow> Inl ErrorNotLoaded | Some wb \<Rightarrow> Inr wb)"

definition getData :: "('sheet, 'c) xlsx \<Rightarrow> 'sheet excel \<Rightarrow> error + (string \<times> 'c grid) list" where
  "getData X this =
     thenE (assertHasLoaded this)
       (\<lambda>wb. Inr (map (\<lambda>name. (name, getDataBySheetName X wb name)) (SheetNames wb)))"

section \<open>The contracts of the specification\<close>

text \<open>
  The specification describes the resolver through typed views of the two documents of a
  drawing. The anchor extractor (section 4.5) reads both anchor collections, concatenates
  them and turns every anchor into its relationship id and its two cells.
\<close>

definition anchorsOfDrawing :: "(jsval \<Rightarrow> jsnum) \<Rightarrow> jsval \<Rightarrow> error + (jsval \<times> imageAnchor) list" where
  "anchorsOfDrawing num drawingXmlObj =
     thenE (getProp drawingXmlObj ''xdr:wsDr'')
       (\<lambda>wsDr.
     thenE (getProp wsDr ''xdr:twoCellAnchor'')
       (\<lambda>two.
     thenE (getProp wsDr ''xdr:oneCellAnchor'')
       (\<lambda>one.
     thenE (concatAnchors (orEmpty one) (orEmpty two)) (mapE (parseAnchor num)))))"

text \<open>
  The drawing's relationship table (section 4.4) maps relationship ids to media targets.
\<close>

definition relationOf :: "jsval \<Rightarrow> error + (jsval \<times> string)" where
  "relationOf r =
     thenE (getProp r ''Id'')
       (\<lambda>rid. thenE (getProp r ''Target'')
       (\<lambda>target. case target of JStr t \<Rightarrow> Inr (rid, t) | _ \<Rightarrow> Inl TypeError))"

definition relationsOfDrawing :: "jsval \<Rightarrow> error + (jsval \<times> string) list" where
  "relationsOfDrawing drawingRelXmlObj =
     thenE (getPath drawingRelXmlObj [''Relationships'', ''Relationship''])
       (\<lambda>relationships. case relationships of JArr rs \<Rightarrow> mapE relationOf rs | _ \<Rightarrow> Inl TypeError)"

text \<open>
  The join of section 4.6: the anchors of a relationship id, in the order of the anchor
  list, and the image locations of a relationship, one per anchor, all with the file of
  the relationship's target.
\<close>

definition anchorsFor :: "(jsval \<times> imageAnchor) list \<Rightarrow> jsval \<Rightarrow> imageAnchor list" where
  "anchorsFor ps rid = map snd (filter (\<lambda>p. sameValueZero (fst p) rid) ps)"

definition locationsFor :: "files \<Rightarrow> (jsval \<times> imageAnchor) list \<Rightarrow> jsval \<times> string \<Rightarrow> imageMetadata list" where
  "locationsFor fs ps rel =
     map (\<lambda>a. \<lparr>fromCell = fromCell a, toCell = toCell a,
               imageFile = parseMetaImageToFile fs (''xl/media/'' @ basename (snd rel)) (basename (snd rel))\<rparr>)
       (anchorsFor ps (fst rel))"

text \<open>What the \<^verbatim>\<open>Map\<close> of the source holds once the anchors are collected.\<close>

definition grouped :: "(jsval \<times> imageAnchor) list \<Rightarrow> jsval \<Rightarrow> imageAnchor list option" where
  "grouped ps k = (if anchorsFor ps k = [] then None else Some (anchorsFor ps k))"

text \<open>
  The order in which the drawing declares its anchors: the \<open>from\<close> cells of the anchor
  elements in document order.
\<close>

definition declarationOrder :: "(jsval \<Rightarrow> jsnum) \<Rightarrow> xml list \<Rightarrow> error + cell list" where
  "declarationOrder num anchors =
     mapE (\<lambda>x. thenE (parseAnchor num (mergeInner (compactOf alwaysArray x)))
                  (\<lambda>p. Inr (fromCell (snd p)))) anchors"

text \<open>
  A callback that also records its calls, to speak about which calls are made and in
  which order; the strings a callback resolves to over a list of locations; a cell of the
  grid; a sequence of writes.
\<close>

definition traced :: "('c, 'w) callback \<Rightarrow> ('c, 'w \<times> (jsfile option \<times> cell) list) callback" where
  "traced cb f at st =
     (case st of (w, calls) \<Rightarrow>
        (case cb f at w of (r, w') \<Rightarrow> (r, (w', calls @ [(f, at)]))))"

fun answers :: "('c, 'w) callback \<Rightarrow> imageMetadata list \<Rightarrow> 'w \<Rightarrow> 'c list" where
  "answers cb [] w = []"
| "answers cb (location # locations) w =
     (case cb (imageFile location) (fromCell location) w of
        (Inl e, w') \<Rightarrow> []
      | (Inr str, w') \<Rightarrow> str # answers cb locations w')"

definition cellAt :: "'c grid \<Rightarrow> nat \<Rightarrow> nat \<Rightarrow> 'c option" where
  "cellAt data r c = (case getIndex data r of Some cells \<Rightarrow> getIndex cells c | None \<Rightarrow> None)"

definition writes :: "'c grid \<Rightarrow> (imageMetadata \<times> 'c) list \<Rightarrow> 'c grid" where
  "writes data ws = foldl (\<lambda>d (l, s). writeCell d (fromCell l) s) data ws"

definition succeeded :: "error + 'a \<Rightarrow> bool" where
  "succeeded r = (case r of Inl e \<Rightarrow> False | Inr v \<Rightarrow> True)"

text \<open>
  The world a callback leaves after a list of locations, and for every sheet of the
  resolved map the writes of its locations: each location with the string the callback
  resolves to, the callback starting each sheet from the world the sheet before left.
\<close>

fun worldAfter :: "('c, 'w) callback \<Rightarrow> imageMetadata list \<Rightarrow> 'w \<Rightarrow> 'w" where
  "worldAfter cb [] w = w"
| "worldAfter cb (location # locations) w =
     (case cb (imageFile location) (fromCell location) w of
        (Inl e, w') \<Rightarrow> w'
      | (Inr str, w') \<Rightarrow> worldAfter cb locations w')"

fun sheetWrites ::
  "('c, 'w) callback \<Rightarrow> (string \<times> imageMetadata list) list \<Rightarrow> 'w
     \<Rightarrow> (string \<times> (imageMetadata \<times> 'c) list) list" where
  "sheetWrites cb [] w = []"
| "sheetWrites cb ((sheetName, locations) # rest) w =
     (sheetName, zip locations (answers cb locations w))
       # sheetWrites cb rest (worldAfter cb locations w)"

text \<open>
  A sheet of the workbook the transformation ends with, and the sheet that committing a
  list of writes gives: the grid read from the sheet, written to, and added back to it; a
  sheet without writes is as it was.
\<close>

definition sheetAfter :: "error + 'sheet workbook \<Rightarrow> string \<Rightarrow> 'sheet option" where
  "sheetAfter r sheetName = (case r of Inl e \<Rightarrow> None | Inr wb \<Rightarrow> Sheets wb sheetName)"

definition committed ::
  "('sheet, 'c) xlsx \<Rightarrow> 'sheet workbook \<Rightarrow> (string \<times> (imageMetadata \<times> 'c) list) list \<Rightarrow> string
     \<Rightarrow> 'sheet option" where
  "committed X wb sws sheetName =
     (case map_of sws sheetName of
        None \<Rightarrow> Sheets wb sheetName
      | Some ws \<Rightarrow>
          (case Sheets wb sheetName of
             None \<Rightarrow> None
           | Some sh \<Rightarrow> Some (sheet_add_aoa X sh (writes (sheet_to_json X (Some sh)) ws))))"

section \<open>A small package\<close>

text \<open>
  An instance of the parameter \<open>num\<close> for the examples. It is \<^verbatim>\<open>Number\<close> on \<^verbatim>\<open>undefined\<close>,
  \<^verbatim>\<open>null\<close> and objects, and on the strings (arrays by their text) that, white space at both
  ends apart, are empty or an optional sign and up to 15 decimal digits: such a number is
  an array index when it is not negative and below \<open>2^32 - 1\<close>, and otherwise has its
  decimal text as key. On every other string the instance answers \<^verbatim>\<open>NaN\<close>, which is
  \<^verbatim>\<open>Number\<close> only where the text is no numeric literal; the examples stay away from
  fractions, exponents, other radices and longer numbers.
\<close>

definition whiteChar :: "char \<Rightarrow> bool" where
  "whiteChar c = (c \<in> set [CHR '' '', CHR 0x09, CHR 0x0A, CHR 0x0B, CHR 0x0C, CHR 0x0D])"

definition trim :: "string \<Rightarrow> string" where
  "trim s = rev (dropWhile whiteChar (rev (dropWhile whiteChar s)))"

definition digitsNumber :: "bool \<Rightarrow> string \<Rightarrow> jsnum" where
  "digitsNumber negative ds =
     (if ds = [] then NonIndex ''NaN''
      else if 15 < length ds then NonIndex ''NaN''
      else if list_all (\<lambda>c. c \<in> set ''0123456789'') ds = False then NonIndex ''NaN''
      else if int_of_digits ds = 0 then Index 0
      else if negative then NonIndex (''-'' @ string_of_nat (nat (int_of_digits ds)))
      else if int_of_digits ds < 4294967295 then Index (nat (int_of_digits ds))
      else NonIndex (string_of_nat (nat (int_of_digits ds))))"

definition stringNumber :: "string \<Rightarrow> jsnum" where
  "stringNumber s =
     (case trim s of
        [] \<Rightarrow> Index 0
      | c # cs \<Rightarrow>
          if c = CHR ''-'' then digitsNumber True cs
          else if c = CHR ''+'' then digitsNumber False cs
          else digitsNumber False (c # cs))"

definition decimalNumber :: "jsval \<Rightarrow> jsnum" where
  "decimalNumber v =
     (case v of
        JUndef \<Rightarrow> NonIndex ''NaN''
      | JNull \<Rightarrow> Index 0
      | JStr s \<Rightarrow> stringNumber s
      | JObj kvs \<Rightarrow> NonIndex ''NaN''
      | JArr xs \<Rightarrow> stringNumber (toString (JArr xs)))"

definition el :: "string \<Rightarrow> xml list \<Rightarrow> xml" where
  "el name kids = Element name [] kids"

definition relationship :: "string \<Rightarrow> string \<Rightarrow> xml" where
  "relationship rid target = Element ''Relationship'' [(''Id'', rid), (''Target'', target)] []"

definition relsXml :: "xml list \<Rightarrow> xdoc" where
  "relsXml rs = XDoc (Some [(''version'', ''1.0'')]) (el ''Relationships'' rs)"

definition marker :: "string \<Rightarrow> string \<Rightarrow> string \<Rightarrow> xml" where
  "marker name c r = el name [el ''xdr:col'' [Text c], el ''xdr:row'' [Text r]]"

definition pic :: "string \<Rightarrow> xml" where
  "pic rid = el ''xdr:pic'' [el ''xdr:blipFill'' [Element ''a:blip'' [(''r:embed'', rid)] []]]"

definition oneCellAnchor :: "string \<Rightarrow> string \<Rightarrow> string \<Rightarrow> xml" where
  "oneCellAnchor rid c r = el ''xdr:oneCellAnchor'' [marker ''xdr:from'' c r, pic rid]"

definition twoCellAnchor :: "string \<Rightarrow> string \<Rightarrow> string \<Rightarrow> string \<Rightarrow> string \<Rightarrow> xml" where
  "twoCellAnchor rid c r c2 r2 =
     el ''xdr:twoCellAnchor'' [marker ''xdr:from'' c r, marker ''xdr:to'' c2 r2, pic rid]"

definition drawingXml :: "xml list \<Rightarrow> xdoc" where
  "drawingXml anchors = XDoc None (el ''xdr:wsDr'' anchors)"

definition workbookDoc :: content where
  "workbookDoc =
     Xml (XDoc None (el ''workbook''
       [el ''sheets'' [Element ''sheet'' [(''name'', ''Data''), (''sheetId'', ''1'')] []]]))"

definition worksheetXml :: "string \<Rightarrow> xdoc" where
  "worksheetXml rid =
     XDoc None (el ''worksheet'' [el ''sheetData'' [], Element ''drawing'' [(''r:id'', rid)] []])"

definition png :: content where
  "png = Binary [137, 80, 78, 71]"

text \<open>
  One sheet "Data" declaring the drawing \<open>rid\<close>, with the given worksheet relationships,
  anchors, drawing relationships and media parts.
\<close>

definition package :: "string \<Rightarrow> xml list \<Rightarrow> xml list \<Rightarrow> xml list \<Rightarrow> (string \<times> content) list \<Rightarrow> files" where
  "package rid sheetRels anchors drawingRels media =
     map_of ([(''xl/workbook.xml'', workbookDoc),
              (''xl/worksheets/sheet1.xml'', Xml (worksheetXml rid)),
              (''xl/worksheets/_rels/sheet1.xml.rels'', Xml (relsXml sheetRels)),
              (''xl/drawings/drawing1.xml'', Xml (drawingXml anchors)),
              (''xl/drawings/_rels/drawing1.xml.rels'', Xml (relsXml drawingRels))] @ media)"

definition drawingTarget :: "xml list" where
  "drawingTarget = [relationship ''rId1'' ''../drawings/drawing1.xml'']"

definition image1 :: "(string \<times> content) list" where
  "image1 = [(''xl/media/image1.png'', png)]"

text \<open>
  The scenario of the specification: one two-cell anchor at rows 2 to 4 and columns 1 to 3
  that embeds \<open>rId1\<close>, which is \<^verbatim>\<open>media/image1.png\<close>.
\<close>

definition pkgScenario :: files where
  "pkgScenario =
     package ''rId1'' drawingTarget [twoCellAnchor ''rId1'' ''1'' ''2'' ''3'' ''4'']
       [relationship ''rId1'' ''../media/image1.png''] image1"

text \<open>The worksheet declares the drawing \<open>rId2\<close>, the second of its two relationships.\<close>

definition pkgSecondRel :: files where
  "pkgSecondRel =
     package ''rId2''
       [relationship ''rId1'' ''../printerSettings/printerSettings1.bin'',
        relationship ''rId2'' ''../drawings/drawing1.xml'']
       [twoCellAnchor ''rId1'' ''1'' ''2'' ''3'' ''4'']
       [relationship ''rId1'' ''../media/image1.png'']
       (image1 @ [(''xl/printerSettings/printerSettings1.bin'', Binary [1, 2])])"

text \<open>The scenario without the worksheet's relationship part.\<close>

definition pkgNoSheetRels :: files where
  "pkgNoSheetRels = pkgScenario(''xl/worksheets/_rels/sheet1.xml.rels'' := None)"

text \<open>A drawing with exactly one one-cell anchor.\<close>

definition pkgOneCell :: files where
  "pkgOneCell =
     package ''rId1'' drawingTarget [oneCellAnchor ''rId1'' ''1'' ''2'']
       [relationship ''rId1'' ''../media/image1.png''] image1"

text \<open>One image anchored three times: two one-cell anchors and a two-cell anchor.\<close>

definition pkgFanOut :: files where
  "pkgFanOut =
     package ''rId1'' drawingTarget
       [oneCellAnchor ''rId1'' ''1'' ''2'', oneCellAnchor ''rId1'' ''3'' ''4'',
        twoCellAnchor ''rId1'' ''5'' ''6'' ''7'' ''8'']
       [relationship ''rId1'' ''../media/image1.png''] image1"

text \<open>The drawing relationship \<open>rId2\<close> has no anchor.\<close>

definition pkgOrphanRel :: files where
  "pkgOrphanRel =
     package ''rId1'' drawingTarget [twoCellAnchor ''rId1'' ''1'' ''2'' ''3'' ''4'']
       [relationship ''rId1'' ''../media/image1.png'',
        relationship ''rId2'' ''../media/image2.png'']
       image1"


text \<open>
  The drawing declares the anchor of \<open>rId2\<close> before the anchor of \<open>rId1\<close>; the relationship
  part lists \<open>rId1\<close> first.
\<close>

definition pkgTwoImages :: files where
  "pkgTwoImages =
     package ''rId1'' drawingTarget
       [twoCellAnchor ''rId2'' ''5'' ''6'' ''7'' ''8'', twoCellAnchor ''rId1'' ''1'' ''2'' ''3'' ''4'']
       [relationship ''rId1'' ''../media/image1.png'',
        relationship ''rId2'' ''../media/image2.png'']
       (image1 @ [(''xl/media/image2.png'', Binary [255, 216])])"


definition chartAnchor :: "string \<Rightarrow> string \<Rightarrow> string \<Rightarrow> string \<Rightarrow> string \<Rightarrow> xml" where
  "chartAnchor rid c r c2 r2 =
     el ''xdr:twoCellAnchor''
       [marker ''xdr:from'' c r, marker ''xdr:to'' c2 r2,
        el ''xdr:graphicFrame''
          [el ''a:graphic'' [el ''a:graphicData'' [Element ''c:chart'' [(''r:id'', rid)] []]]]]"


text \<open>
  The scenario with a chart next to the picture: the relationship \<open>rId2\<close> of the chart is
  in the drawing's table, and no picture anchor embeds it.
\<close>

definition pkgChart :: files where
  "pkgChart =
     package ''rId1'' drawingTarget
       [twoCellAnchor ''rId1'' ''1'' ''2'' ''3'' ''4'', chartAnchor ''rId2'' ''5'' ''6'' ''7'' ''8'']
       [relationship ''rId1'' ''../media/image1.png'',
        relationship ''rId2'' ''../charts/chart1.xml'']
       (image1 @ [(''xl/charts/chart1.xml'', Xml (XDoc None (el ''c:chartSpace'' [])))])"

text \<open>
  An instance of the library's two functions for sheets that are kept as their grid, a
  grid, a workbook over a package, and a callback that answers with a URL made of the file
  name and counts its calls.
\<close>

definition gridSheets :: "(string grid, string) xlsx" where
  "gridSheets =
     \<lparr>sheet_to_json = (\<lambda>s. case s of None \<Rightarrow> [] | Some g \<Rightarrow> g),
      sheet_add_aoa = (\<lambda>sh data. data)\<rparr>"

definition grid0 :: "string grid" where
  "grid0 = [Some [Some ''id'', Some ''photo''], Some [Some ''7'']]"

definition workbookOf :: "files \<Rightarrow> string grid workbook" where
  "workbookOf fs = \<lparr>SheetNames = [''Data''], Sheets = [''Data'' \<mapsto> grid0], files = fs\<rparr>"

definition cbUpload :: "(string, nat) callback" where
  "cbUpload f at n =
     (Inr (''https://cdn/'' @ (case f of None \<Rightarrow> ''none'' | Some (name, d) \<Rightarrow> name)), Suc n)"

section \<open>Properties\<close>

subsection \<open>Auxiliary facts\<close>

lemma getProp_truthy: "truthy v \<Longrightarrow> \<exists>w. getProp v k = Inr w"
  by (cases v) auto

lemma thenE_Inr_iff: "thenE r f = Inr y \<longleftrightarrow> (\<exists>x. r = Inr x \<and> f x = Inr y)"
  by (cases r) (auto simp: thenE_def)

lemma thenE_Inr [simp]: "thenE (Inr x) f = f x"
  by (simp add: thenE_def)

lemma thenE_Inl [simp]: "thenE (Inl e) f = Inl e"
  by (simp add: thenE_def)

lemma sameValueZero_iff: "sameValueZero a b \<longleftrightarrow> a = b \<and> \<not> typeofObject a"
  by (cases a) auto

lemma mapGet_mapSet:
  "mapGet (mapSet m k v) k' = (if sameValueZero k k' then Some v else mapGet m k')"
  by (induction m) (auto simp: sameValueZero_iff)

lemma anchorsFor_snoc:
  "anchorsFor (ps @ [(rid, a)]) k = anchorsFor ps k @ (if sameValueZero rid k then [a] else [])"
  by (simp add: anchorsFor_def)

lemma anchorsFor_object: "typeofObject k \<Longrightarrow> anchorsFor ps k = []"
  by (auto simp: anchorsFor_def sameValueZero_iff filter_empty_conv)

lemma entity_grouped:
  assumes "\<forall>k. mapGet m k = grouped ps k"
  shows "(case mapGet m rid of None \<Rightarrow> [] | Some e \<Rightarrow> e) = anchorsFor ps rid"
  using assms by (simp add: grouped_def)

lemma grouped_step:
  assumes "\<forall>k. mapGet m k = grouped ps k"
  shows "mapGet (mapSet m rid (anchorsFor ps rid @ [a])) k = grouped (ps @ [(rid, a)]) k"
  using assms by (auto simp: mapGet_mapSet grouped_def anchorsFor_snoc sameValueZero_iff)

lemma mapE_Cons_Inr:
  "mapE f (x # xs) = Inr ys \<longleftrightarrow> (\<exists>y ys'. f x = Inr y \<and> mapE f xs = Inr ys' \<and> ys = y # ys')"
  by (auto simp: thenE_Inr_iff)

lemma collectAnchors_grouped:
  assumes "mapE (parseAnchor num) anchors = Inr ps"
      and "\<forall>k. mapGet m k = grouped ps0 k"
  shows "\<exists>m'. collectAnchors num anchors m = Inr m' \<and> (\<forall>k. mapGet m' k = grouped (ps0 @ ps) k)"
  using assms
proof (induction anchors arbitrary: ps m ps0)
  case Nil
  then show ?case by simp
next
  case (Cons anchor anchors)
  from Cons.prems(1) obtain p ps' where p: "parseAnchor num anchor = Inr p"
    and ps': "mapE (parseAnchor num) anchors = Inr ps'" and ps: "ps = p # ps'"
    by (auto simp: mapE_Cons_Inr simp del: mapE.simps)
  obtain rid a where pa: "p = (rid, a)" by (cases p)
  let ?m = "mapSet m rid (anchorsFor ps0 rid @ [a])"
  have inv: "\<forall>k. mapGet ?m k = grouped (ps0 @ [(rid, a)]) k"
    using grouped_step [OF Cons.prems(2)] by blast
  from Cons.IH [OF ps' inv] obtain m' where
    m': "collectAnchors num anchors ?m = Inr m'"
    and g: "\<forall>k. mapGet m' k = grouped ((ps0 @ [(rid, a)]) @ ps') k" by blast
  have "collectAnchors num (anchor # anchors) m = Inr m'"
    using p pa m' entity_grouped [OF Cons.prems(2), of rid] by simp
  with g ps pa show ?case by simp
qed

lemma relationOf_Inr:
  "relationOf r = Inr rel \<longleftrightarrow>
     (\<exists>rid t. getProp r ''Id'' = Inr rid \<and> getProp r ''Target'' = Inr (JStr t) \<and> rel = (rid, t))"
proof (cases "getProp r ''Id''")
  case (Inl e)
  then show ?thesis by (simp add: relationOf_def)
next
  case (Inr rid)
  show ?thesis
  proof (cases "getProp r ''Target''")
    case (Inl e)
    with Inr show ?thesis by (simp add: relationOf_def)
  next
    case target: (Inr target)
    with Inr show ?thesis by (cases target) (auto simp: relationOf_def)
  qed
qed

lemma relationsOfDrawing_Inr:
  "relationsOfDrawing d = Inr rels \<longleftrightarrow>
     (\<exists>rs. getPath d [''Relationships'', ''Relationship''] = Inr (JArr rs) \<and> mapE relationOf rs = Inr rels)"
proof (cases "getPath d [''Relationships'', ''Relationship'']")
  case (Inl e)
  then show ?thesis by (simp add: relationsOfDrawing_def)
next
  case (Inr v)
  then show ?thesis by (cases v) (simp_all add: relationsOfDrawing_def)
qed

lemma relationImages_grouped:
  assumes "relationOf r = Inr rel"
      and "\<forall>k. mapGet m k = grouped ps k"
  shows "relationImages fs m r =
           (if anchorsFor ps (fst rel) = [] then Inl (Error ''image anchor not found'')
            else Inr (locationsFor fs ps rel))"
proof -
  from assms(1) obtain rid t where rid: "getProp r ''Id'' = Inr rid"
    and t: "getProp r ''Target'' = Inr (JStr t)" and rel: "rel = (rid, t)"
    by (auto simp: relationOf_Inr)
  show ?thesis
    using rid t rel assms(2)
    by (simp add: relationImages_def locationsFor_def grouped_def Let_def)
qed


lemma flatMap_orphan:
  assumes "mapE relationOf rs = Inr rels"
      and "\<forall>k. mapGet m k = grouped ps k"
      and "rel \<in> set rels" "anchorsFor ps (fst rel) = []"
  shows "flatMap (relationImages fs m) rs = Inl (Error ''image anchor not found'')"
  using assms
proof (induction rs arbitrary: rels)
  case Nil
  then show ?case by auto
next
  case (Cons r rs)
  from Cons.prems(1) obtain rel1 rels' where r: "relationOf r = Inr rel1"
    and rs: "mapE relationOf rs = Inr rels'" and rels: "rels = rel1 # rels'"
    by (auto simp: mapE_Cons_Inr simp del: mapE.simps)
  note ri = relationImages_grouped [OF r Cons.prems(2), of fs]
  show ?case
  proof (cases "anchorsFor ps (fst rel1) = []")
    case True
    then show ?thesis using ri by simp
  next
    case False
    then have "rel \<in> set rels'" using Cons.prems(3,4) rels by auto
    from Cons.IH [OF rs Cons.prems(2) this Cons.prems(4)] False ri
    show ?thesis by simp
  qed
qed

lemma sheetImages_flatMap:
  assumes "anchorsOfDrawing num drawingXmlObj = Inr ps"
      and "relationsOfDrawing drawingRelXmlObj = Inr rels"
  shows "\<exists>m rs. (\<forall>k. mapGet m k = grouped ps k) \<and> mapE relationOf rs = Inr rels
           \<and> sheetImages num fs drawingXmlObj drawingRelXmlObj = flatMap (relationImages fs m) rs"
proof -
  from assms(1) obtain wsDr two one anchors where
    a: "getProp drawingXmlObj ''xdr:wsDr'' = Inr wsDr"
       "getProp wsDr ''xdr:twoCellAnchor'' = Inr two"
       "getProp wsDr ''xdr:oneCellAnchor'' = Inr one"
       "concatAnchors (orEmpty one) (orEmpty two) = Inr anchors"
       "mapE (parseAnchor num) anchors = Inr ps"
    by (auto simp: anchorsOfDrawing_def thenE_Inr_iff)
  from assms(2) obtain rs where
    r: "getPath drawingRelXmlObj [''Relationships'', ''Relationship''] = Inr (JArr rs)"
       "mapE relationOf rs = Inr rels"
    by (auto simp: relationsOfDrawing_Inr)
  have "\<forall>k. mapGet [] k = grouped [] k" by (simp add: grouped_def anchorsFor_def)
  from collectAnchors_grouped [OF a(5) this] obtain m where
    m: "collectAnchors num anchors [] = Inr m" "\<forall>k. mapGet m k = grouped ps k" by auto
  have "sheetImages num fs drawingXmlObj drawingRelXmlObj = flatMap (relationImages fs m) rs"
    unfolding sheetImages_def using a m(1) r(1) by simp
  with m(2) r(2) show ?thesis by blast
qed

lemma getIndex_setIndex:
  "getIndex (setIndex xs i v) j = (if j = i then Some v else getIndex xs j)"
  by (auto simp: getIndex_def setIndex_def nth_append)

lemma cellAt_writeCell_same:
  "cellAt (writeCell data \<lparr>row = Index r, col = Index c\<rparr> s) r c = Some s"
  by (simp add: cellAt_def writeCell_def getIndex_setIndex)

lemma getIndex_Nil: "getIndex [] c = None"
  by (simp add: getIndex_def)

lemma getIndex_old:
  "getIndex (case getIndex data r of Some cells \<Rightarrow> cells | None \<Rightarrow> []) c = cellAt data r c"
  by (cases "getIndex data r") (simp_all add: cellAt_def getIndex_Nil)

lemma cellAt_writeCell_other:
  assumes "at \<noteq> \<lparr>row = Index r, col = Index c\<rparr>"
  shows "cellAt (writeCell data at s) r c = cellAt data r c"
proof (cases "row at")
  case (NonIndex k)
  then show ?thesis by (simp add: writeCell_def)
next
  case (Index r')
  show ?thesis
  proof (cases "r = r'")
    case False
    with Index show ?thesis by (simp add: cellAt_def writeCell_def getIndex_setIndex Let_def)
  next
    case True
    show ?thesis
    proof (cases "col at")
      case (NonIndex k)
      with Index True show ?thesis
        by (simp add: writeCell_def Let_def getIndex_setIndex getIndex_old cellAt_def [of "setIndex _ _ _"])
    next
      case c': (Index c')
      with Index True assms have "c \<noteq> c'" by (cases at) auto
      with Index True c' show ?thesis
        by (simp add: writeCell_def Let_def getIndex_setIndex getIndex_old cellAt_def [of "setIndex _ _ _"])
    qed
  qed
qed

lemma traced_apply:
  "traced cb f at (w, calls) = (case cb f at w of (r, w') \<Rightarrow> (r, (w', calls @ [(f, at)])))"
  by (simp add: traced_def)

lemma writeLocations_traced:
  "writeLocations (traced cb) locs data (w, calls) = (Inr data', (w', calls'))
   \<Longrightarrow> calls' = calls @ map (\<lambda>l. (imageFile l, fromCell l)) locs"
proof (induction locs arbitrary: data w calls)
  case Nil
  then show ?case by simp
next
  case (Cons l locs)
  obtain r w1 where c: "cb (imageFile l) (fromCell l) w = (r, w1)" by (cases "cb (imageFile l) (fromCell l) w")
  show ?case
  proof (cases r)
    case (Inl e)
    with c Cons.prems show ?thesis by (simp add: traced_apply)
  next
    case (Inr s)
    with c Cons.prems have
      "writeLocations (traced cb) locs (writeCell data (fromCell l) s) (w1, calls @ [(imageFile l, fromCell l)])
       = (Inr data', (w', calls'))"
      by (simp add: traced_apply)
    from Cons.IH [OF this] show ?thesis by simp
  qed
qed

lemma transformSheets_traced:
  "transformSheets X (traced cb) L wb (w, calls) = (Inr wb', (w', calls'))
   \<Longrightarrow> calls' = calls @ map (\<lambda>l. (imageFile l, fromCell l)) (concat (map snd L))"
proof (induction L arbitrary: wb w calls)
  case Nil
  then show ?case by simp
next
  case (Cons entry L)
  obtain sheetName locs where e: "entry = (sheetName, locs)" by (cases entry)
  obtain r st where wl: "writeLocations (traced cb) locs (getDataBySheetName X wb sheetName) (w, calls) = (r, st)"
    by (cases "writeLocations (traced cb) locs (getDataBySheetName X wb sheetName) (w, calls)")
  obtain w1 calls1 where st: "st = (w1, calls1)" by (cases st)
  show ?case
  proof (cases r)
    case (Inl err)
    with Cons.prems e wl show ?thesis by simp
  next
    case (Inr data)
    from writeLocations_traced [of cb locs _ w calls data w1 calls1] wl st Inr
    have c1: "calls1 = calls @ map (\<lambda>l. (imageFile l, fromCell l)) locs" by simp
    show ?thesis
    proof (cases "setData X wb sheetName data")
      case (Inl err)
      with Cons.prems e wl Inr show ?thesis by simp
    next
      case wb1: (Inr wb1)
      with Cons.prems e wl Inr st have
        "transformSheets X (traced cb) L wb1 (w1, calls1) = (Inr wb', (w', calls'))" by simp
      from Cons.IH [OF this] c1 e show ?thesis by simp
    qed
  qed
qed

lemma writeLocations_answers:
  "writeLocations cb locs data w = (Inr data', w')
   \<Longrightarrow> length (answers cb locs w) = length locs
       \<and> data' = writes data (zip locs (answers cb locs w))"
proof (induction locs arbitrary: data w)
  case Nil
  then show ?case by (simp add: writes_def)
next
  case (Cons l locs)
  obtain r w1 where c: "cb (imageFile l) (fromCell l) w = (r, w1)" by (cases "cb (imageFile l) (fromCell l) w")
  show ?case
  proof (cases r)
    case (Inl e)
    with c Cons.prems show ?thesis by simp
  next
    case (Inr s)
    with c Cons.prems have "writeLocations cb locs (writeCell data (fromCell l) s) w1 = (Inr data', w')"
      by simp
    from Cons.IH [OF this] c Inr show ?thesis by (simp add: writes_def)
  qed
qed

lemma writes_untouched:
  "\<forall>p \<in> set ws. fromCell (fst p) \<noteq> \<lparr>row = Index r, col = Index c\<rparr>
   \<Longrightarrow> cellAt (writes data ws) r c = cellAt data r c"
proof (induction ws arbitrary: data)
  case Nil
  then show ?case by (simp add: writes_def)
next
  case (Cons p ws)
  obtain l s where p: "p = (l, s)" by (cases p)
  have "cellAt (writes (writeCell data (fromCell l) s) ws) r c = cellAt (writeCell data (fromCell l) s) r c"
    using Cons.IH Cons.prems by simp
  also have "\<dots> = cellAt data r c" using Cons.prems p by (simp add: cellAt_writeCell_other)
  finally show ?case using p by (simp add: writes_def)
qed

lemma writes_last:
  assumes "fromCell l = \<lparr>row = Index r, col = Index c\<rparr>"
      and "\<forall>p \<in> set post. fromCell (fst p) \<noteq> \<lparr>row = Index r, col = Index c\<rparr>"
  shows "cellAt (writes data (pre @ (l, s) # post)) r c = Some s"
proof -
  have "writes data (pre @ (l, s) # post) = writes (writeCell (writes data pre) (fromCell l) s) post"
    by (simp add: writes_def)
  then show ?thesis using writes_untouched [OF assms(2)] assms(1) by (simp add: cellAt_writeCell_same)
qed
lemma transformImagesToStr_Some:
  "resolveImageLocations num wb = Inr L \<Longrightarrow>
   transformImagesToStr X num cb (Some wb) w =
     (case transformSheets X cb (fst L) wb w of
        (Inl e, w') \<Rightarrow> (Inl e, w')
      | (Inr wb', w') \<Rightarrow> if inheritedKeys L = [] then (Inr wb', w') else (Inl TypeError, w'))"
  by (simp add: transformImagesToStr_def)

lemma transformImagesToStr_succeeded:
  assumes "resolveImageLocations num wb = Inr L"
      and "succeeded (fst (transformImagesToStr X num cb (Some wb) w))"
  shows "\<exists>wb' w'. transformSheets X cb (fst L) wb w = (Inr wb', w')
           \<and> transformImagesToStr X num cb (Some wb) w = (Inr wb', w')"
proof -
  obtain r w' where t: "transformSheets X cb (fst L) wb w = (r, w')"
    by (cases "transformSheets X cb (fst L) wb w")
  show ?thesis
  proof (cases r)
    case (Inl e)
    with t assms show ?thesis by (simp add: transformImagesToStr_Some succeeded_def)
  next
    case (Inr wb')
    with t assms show ?thesis
      by (cases "inheritedKeys L = []") (simp_all add: transformImagesToStr_Some succeeded_def)
  qed
qed

lemma transformImagesToStr_calls:
  assumes "resolveImageLocations num wb = Inr L"
      and "succeeded (fst (transformImagesToStr X num (traced cb) (Some wb) (w, [])))"
  shows "snd (snd (transformImagesToStr X num (traced cb) (Some wb) (w, [])))
         = map (\<lambda>l. (imageFile l, fromCell l)) (concat (map snd (fst L)))"
proof -
  from transformImagesToStr_succeeded [OF assms] obtain wb' st where
    t: "transformSheets X (traced cb) (fst L) wb (w, []) = (Inr wb', st)"
    and T: "transformImagesToStr X num (traced cb) (Some wb) (w, []) = (Inr wb', st)" by blast
  obtain w' calls where st: "st = (w', calls)" by (cases st)
  from t st have "calls = [] @ map (\<lambda>l. (imageFile l, fromCell l)) (concat (map snd (fst L)))"
    by (intro transformSheets_traced) simp
  with T st show ?thesis by simp
qed

lemma writes_at_from:
  assumes "length ans = length locs" and "i < length locs"
      and "fromCell (locs ! i) = \<lparr>row = Index r, col = Index c\<rparr>"
      and "\<forall>j. i < j \<longrightarrow> j < length locs \<longrightarrow> fromCell (locs ! j) \<noteq> \<lparr>row = Index r, col = Index c\<rparr>"
  shows "cellAt (writes data (zip locs ans)) r c = Some (ans ! i)"
proof -
  let ?zs = "zip locs ans"
  have len: "i < length ?zs" using assms(1,2) by simp
  have split: "?zs = take i ?zs @ (locs ! i, ans ! i) # drop (Suc i) ?zs"
    using id_take_nth_drop [OF len] len by simp
  have post: "\<forall>p \<in> set (drop (Suc i) ?zs). fromCell (fst p) \<noteq> \<lparr>row = Index r, col = Index c\<rparr>"
  proof
    fix p assume "p \<in> set (drop (Suc i) ?zs)"
    then obtain k where k: "k < length ?zs - Suc i" "p = drop (Suc i) ?zs ! k"
      by (auto simp: in_set_conv_nth)
    then have "fst p = locs ! (Suc i + k)" using assms(1) by simp
    moreover have "Suc i + k < length locs" using k(1) assms(1) by simp
    ultimately show "fromCell (fst p) \<noteq> \<lparr>row = Index r, col = Index c\<rparr>"
      using assms(4) by simp
  qed
  have "cellAt (writes data (take i ?zs @ (locs ! i, ans ! i) # drop (Suc i) ?zs)) r c = Some (ans ! i)"
    by (rule writes_last [OF assms(3) post])
  with split show ?thesis by simp
qed


lemma resolveAllSheetImages_fails:
  assumes "sheetName \<in> set sheetNames"
      and "mapGet sheetMap (JStr sheetName) = Some sh"
      and "resolveSheetImages num fs (id_sheet sh) = Inl e"
  shows "\<not> succeeded (resolveAllSheetImages num fs sheetMap sheetNames metadatasMap)"
  using assms(1)
proof (induction sheetNames arbitrary: metadatasMap)
  case Nil
  then show ?case by simp
next
  case (Cons n ns)
  show ?case
  proof (cases "mapGet sheetMap (JStr n)")
    case None
    then show ?thesis by (simp add: succeeded_def)
  next
    case (Some sh')
    show ?thesis
    proof (cases "resolveSheetImages num fs (id_sheet sh')")
      case (Inl e')
      with Some show ?thesis by (simp add: succeeded_def)
    next
      case (Inr images)
      with Some assms(2,3) have "n \<noteq> sheetName" by auto
      with Cons.prems have "sheetName \<in> set ns" by simp
      from Cons.IH [OF this] Some Inr show ?thesis by simp
    qed
  qed
qed

lemma transformImagesToStr_resolve_error:
  "resolveImageLocations num wb = Inl e
   \<Longrightarrow> transformImagesToStr X num cb (Some wb) w = (Inl e, w)"
  by (simp add: transformImagesToStr_def)

lemma writeLocations_world:
  "writeLocations cb locs data w = (r, w') \<Longrightarrow> w' = worldAfter cb locs w"
proof (induction locs arbitrary: data w)
  case Nil
  then show ?case by simp
next
  case (Cons l locs)
  obtain r1 w1 where c: "cb (imageFile l) (fromCell l) w = (r1, w1)"
    by (cases "cb (imageFile l) (fromCell l) w")
  show ?case
  proof (cases r1)
    case (Inl e)
    with c Cons.prems show ?thesis by simp
  next
    case (Inr s)
    with c Cons.prems have "writeLocations cb locs (writeCell data (fromCell l) s) w1 = (r, w')"
      by simp
    from Cons.IH [OF this] c Inr show ?thesis by simp
  qed
qed

lemma sheetWrites_keys: "map fst (sheetWrites cb L w) = map fst L"
  by (induction L arbitrary: w) auto

lemma transformSheets_step:
  assumes "transformSheets X cb ((sheetName, locs) # rest) wb w = (Inr wb', w')"
  shows "\<exists>sh. Sheets wb sheetName = Some sh
           \<and> length (answers cb locs w) = length locs
           \<and> transformSheets X cb rest
                (wb\<lparr>Sheets := (Sheets wb)(sheetName \<mapsto>
                     sheet_add_aoa X sh (writes (sheet_to_json X (Some sh)) (zip locs (answers cb locs w))))\<rparr>)
                (worldAfter cb locs w) = (Inr wb', w')"
proof -
  obtain r w1 where wl: "writeLocations cb locs (getDataBySheetName X wb sheetName) w = (r, w1)"
    by (cases "writeLocations cb locs (getDataBySheetName X wb sheetName) w")
  show ?thesis
  proof (cases r)
    case (Inl e)
    with wl assms show ?thesis by simp
  next
    case (Inr data)
    note wa = writeLocations_answers [OF wl [unfolded Inr]]
    have w1: "w1 = worldAfter cb locs w" using wl by (rule writeLocations_world)
    show ?thesis
    proof (cases "Sheets wb sheetName")
      case None
      with wl Inr assms show ?thesis by (simp add: setData_def)
    next
      case (Some sh)
      with wl Inr assms wa w1 show ?thesis
        by (simp add: setData_def getDataBySheetName_def)
    qed
  qed
qed

lemma transformSheets_sheets:
  assumes "transformSheets X cb L wb w = (Inr wb', w')"
      and "distinct (map fst L)"
  shows "Sheets wb' sheetName = committed X wb (sheetWrites cb L w) sheetName"
  using assms
proof (induction L arbitrary: wb w)
  case Nil
  then show ?case by (simp add: committed_def)
next
  case (Cons entry L)
  obtain n locs where e: "entry = (n, locs)" by (cases entry)
  from Cons.prems(1) e transformSheets_step [of X cb n locs L wb w wb' w'] obtain sh where
    sh: "Sheets wb n = Some sh"
    and rest: "transformSheets X cb L
                (wb\<lparr>Sheets := (Sheets wb)(n \<mapsto>
                     sheet_add_aoa X sh (writes (sheet_to_json X (Some sh)) (zip locs (answers cb locs w))))\<rparr>)
                (worldAfter cb locs w) = (Inr wb', w')"
    by auto
  let ?wb1 = "wb\<lparr>Sheets := (Sheets wb)(n \<mapsto>
                     sheet_add_aoa X sh (writes (sheet_to_json X (Some sh)) (zip locs (answers cb locs w))))\<rparr>"
  from Cons.prems(2) e have d: "distinct (map fst L)" and notin: "n \<notin> fst ` set L" by auto
  have ih: "Sheets wb' sheetName = committed X ?wb1 (sheetWrites cb L (worldAfter cb locs w)) sheetName"
    by (rule Cons.IH [OF rest d])
  have nokey: "map_of (sheetWrites cb L (worldAfter cb locs w)) n = None"
    using notin sheetWrites_keys [of cb L "worldAfter cb locs w"]
    by (metis map_of_eq_None_iff set_map)
  show ?case
  proof (cases "sheetName = n")
    case True
    with ih nokey sh e show ?thesis by (simp add: committed_def)
  next
    case False
    with ih e show ?thesis by (auto simp: committed_def split: option.splits)
  qed
qed

lemma sheetWrites_locations:
  assumes "transformSheets X cb L wb w = (Inr wb', w')"
  shows "map (\<lambda>p. (fst p, map fst (snd p))) (sheetWrites cb L w) = L"
  using assms
proof (induction L arbitrary: wb w)
  case Nil
  then show ?case by simp
next
  case (Cons entry L)
  obtain n locs where e: "entry = (n, locs)" by (cases entry)
  from Cons.prems e transformSheets_step [of X cb n locs L wb w wb' w'] obtain sh where
    len: "length (answers cb locs w) = length locs"
    and rest: "transformSheets X cb L
                (wb\<lparr>Sheets := (Sheets wb)(n \<mapsto>
                     sheet_add_aoa X sh (writes (sheet_to_json X (Some sh)) (zip locs (answers cb locs w))))\<rparr>)
                (worldAfter cb locs w) = (Inr wb', w')"
    by auto
  from Cons.IH [OF rest] len e show ?case by simp
qed

lemma objSet_distinct:
  assumes "distinct (map fst ob)"
  shows "distinct (map fst (objSet ob k v))"
proof (cases "map_of ob k")
  case (Some x)
  with assms show ?thesis by (simp add: objSet_def distinct_update)
next
  case None
  then have k: "k \<notin> fst ` set ob" by (simp add: map_of_eq_None_iff)
  have split: "map fst ob = map fst (takeWhile (indexBefore k) ob) @ map fst (dropWhile (indexBefore k) ob)"
    by (metis map_append takeWhile_dropWhile_id)
  from assms split have
    "distinct (map fst (takeWhile (indexBefore k) ob) @ map fst (dropWhile (indexBefore k) ob))"
    by simp
  moreover have "k \<notin> set (map fst (takeWhile (indexBefore k) ob))"
    "k \<notin> set (map fst (dropWhile (indexBefore k) ob))"
    using k by (auto dest: set_takeWhileD set_dropWhileD)
  ultimately show ?thesis using None assms k by (auto simp: objSet_def)
qed

lemma resolveAllSheetImages_distinct:
  assumes "resolveAllSheetImages num fs sheetMap names acc = Inr L"
      and "distinct (map fst (fst acc))"
  shows "distinct (map fst (fst L))"
  using assms
proof (induction names arbitrary: acc)
  case Nil
  then show ?case by simp
next
  case (Cons n ns)
  from Cons.prems(1) obtain sh images where
    "mapGet sheetMap (JStr n) = Some sh" "resolveSheetImages num fs (id_sheet sh) = Inr images"
    "resolveAllSheetImages num fs sheetMap ns (assignSheet acc n images) = Inr L"
    by (auto simp: thenE_Inr_iff split: option.splits)
  moreover have "distinct (map fst (fst (assignSheet acc n images)))"
    using Cons.prems(2) by (simp add: assignSheet_def objSet_distinct)
  ultimately show ?case using Cons.IH by blast
qed

lemma resolveImageLocations_distinct:
  "resolveImageLocations num wb = Inr L \<Longrightarrow> distinct (map fst (fst L))"
  by (auto simp: resolveImageLocations_def thenE_Inr_iff dest: resolveAllSheetImages_distinct)

lemma writeLocations_traced_sim:
  "writeLocations (traced cb) locs data (w, calls) = (r, st)
   \<Longrightarrow> writeLocations cb locs data w = (r, fst st)"
proof (induction locs arbitrary: data w calls)
  case Nil
  then show ?case by auto
next
  case (Cons l locs)
  obtain r1 w1 where c: "cb (imageFile l) (fromCell l) w = (r1, w1)"
    by (cases "cb (imageFile l) (fromCell l) w")
  show ?case
  proof (cases r1)
    case (Inl e)
    with c Cons.prems show ?thesis by (auto simp: traced_apply)
  next
    case (Inr s)
    with c Cons.prems have
      "writeLocations (traced cb) locs (writeCell data (fromCell l) s) (w1, calls @ [(imageFile l, fromCell l)])
       = (r, st)" by (simp add: traced_apply)
    from Cons.IH [OF this] c Inr show ?thesis by simp
  qed
qed

lemma transformSheets_traced_sim:
  "transformSheets X (traced cb) L wb (w, calls) = (r, st)
   \<Longrightarrow> transformSheets X cb L wb w = (r, fst st)"
proof (induction L arbitrary: wb w calls)
  case Nil
  then show ?case by auto
next
  case (Cons entry L)
  obtain n locs where e: "entry = (n, locs)" by (cases entry)
  obtain r1 st1 where wl: "writeLocations (traced cb) locs (getDataBySheetName X wb n) (w, calls) = (r1, st1)"
    by (cases "writeLocations (traced cb) locs (getDataBySheetName X wb n) (w, calls)")
  obtain w1 calls1 where st1: "st1 = (w1, calls1)" by (cases st1)
  have wl': "writeLocations cb locs (getDataBySheetName X wb n) w = (r1, w1)"
    using writeLocations_traced_sim [OF wl] st1 by simp
  show ?case
  proof (cases r1)
    case (Inl err)
    with Cons.prems e wl wl' st1 show ?thesis by auto
  next
    case (Inr data)
    show ?thesis
    proof (cases "setData X wb n data")
      case err: (Inl err)
      from Cons.prems e wl Inr st1 err have "r = Inl err" "st = (w1, calls1)" by simp_all
      with e wl' Inr err show ?thesis by simp
    next
      case wb1: (Inr wb1)
      with Cons.prems e wl Inr st1 have
        "transformSheets X (traced cb) L wb1 (w1, calls1) = (r, st)" by simp
      from Cons.IH [OF this] e wl' Inr wb1 show ?thesis by simp
    qed
  qed
qed

lemma transformImagesToStr_world:
  "resolveImageLocations num wb = Inr L
   \<Longrightarrow> snd (transformImagesToStr X num cb (Some wb) w) = snd (transformSheets X cb (fst L) wb w)"
  by (cases "transformSheets X cb (fst L) wb w")
     (auto simp: transformImagesToStr_Some split: sum.splits)

lemma transformImagesToStr_succeededI:
  assumes "resolveImageLocations num wb = Inr L"
      and "succeeded (fst (transformSheets X cb (fst L) wb w))"
      and "inheritedKeys L = []"
  shows "succeeded (fst (transformImagesToStr X num cb (Some wb) w))"
  using assms
  by (cases "transformSheets X cb (fst L) wb w")
     (auto simp: transformImagesToStr_Some succeeded_def split: sum.splits)

lemma transformImagesToStr_inherited:
  assumes "resolveImageLocations num wb = Inr L"
      and "succeeded (fst (transformImagesToStr X num cb (Some wb) w))"
  shows "inheritedKeys L = []"
  using assms
  by (cases "transformSheets X cb (fst L) wb w"; cases "inheritedKeys L = []")
     (auto simp: transformImagesToStr_Some succeeded_def split: sum.splits)

lemma traced_succeeded:
  assumes "resolveImageLocations num wb = Inr L"
      and "succeeded (fst (transformImagesToStr X num cb (Some wb) w))"
  shows "succeeded (fst (transformImagesToStr X num (traced cb) (Some wb) (w, [])))"
proof -
  from transformImagesToStr_succeeded [OF assms] obtain wb' w' where
    t: "transformSheets X cb (fst L) wb w = (Inr wb', w')" by blast
  obtain r st where tt: "transformSheets X (traced cb) (fst L) wb (w, []) = (r, st)"
    by (cases "transformSheets X (traced cb) (fst L) wb (w, [])")
  from transformSheets_traced_sim [OF tt] t have "r = Inr wb'" by simp
  with tt have "succeeded (fst (transformSheets X (traced cb) (fst L) wb (w, [])))"
    by (simp add: succeeded_def)
  then show ?thesis
    using transformImagesToStr_inherited [OF assms]
    by (rule transformImagesToStr_succeededI [OF assms(1)])
qed

lemma resolveAllSheetImages_first_failure:
  assumes "\<forall>n \<in> set pre. \<exists>sh' images. mapGet sheetMap (JStr n) = Some sh'
             \<and> resolveSheetImages num fs (id_sheet sh') = Inr images"
      and "mapGet sheetMap (JStr sheetName) = Some sh"
      and "resolveSheetImages num fs (id_sheet sh) = Inl e"
  shows "resolveAllSheetImages num fs sheetMap (pre @ sheetName # post) metadatasMap = Inl e"
  using assms(1)
proof (induction pre arbitrary: metadatasMap)
  case Nil
  then show ?case using assms(2,3) by simp
next
  case (Cons n pre)
  from Cons.prems obtain sh' images where
    "mapGet sheetMap (JStr n) = Some sh'" "resolveSheetImages num fs (id_sheet sh') = Inr images"
    by auto
  moreover have "resolveAllSheetImages num fs sheetMap (pre @ sheetName # post)
                   (assignSheet metadatasMap n images) = Inl e"
    using Cons.IH Cons.prems by simp
  ultimately show ?case by simp
qed

subsection \<open>The worksheet's drawing relationship\<close>

text \<open>
  C1. The lookup of the worksheet's drawing relationship should select the entry whose
  \<open>Id\<close> equals the declared drawing relationship id. On the package whose worksheet
  declares \<open>rId2\<close>, the second entry, the lookup returns the first entry, the printer
  settings, with its \<open>Id\<close> overwritten by \<open>rId2\<close>: the callback of \<^verbatim>\<open>find\<close> assigns where it
  should compare.
\<close>

theorem lookup_takes_first_relationship:
  "thenE (parseMetaXmlToObject pkgSecondRel ''xl/worksheets/_rels/sheet1.xml.rels'')
     (\<lambda>sheetRelsXmlObj. thenE (getPath sheetRelsXmlObj [''Relationships'', ''Relationship''])
        (\<lambda>relationships. find_js relationships (JStr ''rId2'')))
   = Inr (JObj [(''Id'', JStr ''rId2''),
                (''Target'', JStr ''../printerSettings/printerSettings1.bin'')])"
  by code_simp

text \<open>The resolver then reads the printer settings as the drawing, and is rejected.\<close>

lemma resolveDrawing_second_relationship:
  "resolveDrawing pkgSecondRel (JStr ''1'')
   = Inl (ErrorXmlParse ''xl/printerSettings/printerSettings1.bin'')"
  by code_simp

text \<open>
  C2. A worksheet that declares a drawing should fail to resolve when a linked part is
  missing. When the part that is missing is the worksheet's relationship table, the guard
  \<^verbatim>\<open>if (!sheetRelsXmlObj) return null\<close> makes \<^verbatim>\<open>_resolveDrawing\<close> return \<^verbatim>\<open>null\<close>, and the
  sheet resolves to the empty list without an error.
\<close>

theorem missing_sheet_rels_gives_empty:
  assumes "parseMetaXmlToObject fs (''xl/worksheets/sheet'' @ toString sheetId @ ''.xml'') = Inr sheetXmlObj"
      and "getPath sheetXmlObj [''worksheet'', ''drawing''] = Inr drawing"
      and "truthy drawing"
      and "fs (''xl/worksheets/_rels/sheet'' @ toString sheetId @ ''.xml.rels'') = None"
  shows "resolveDrawing fs sheetId = Inr None \<and> resolveSheetImages num fs sheetId = Inr []"
proof -
  obtain drawingRelId where rid: "getProp drawing ''r:id'' = Inr drawingRelId"
    using getProp_truthy [OF assms(3)] by blast
  have rels: "parseMetaXmlToObject fs (''xl/worksheets/_rels/sheet'' @ toString sheetId @ ''.xml.rels'') = Inr JNull"
    using assms(4) by (simp add: parseMetaXmlToObject_def getDataFromWbFile_def)
  have "resolveDrawing fs sheetId = Inr None"
    unfolding resolveDrawing_def using assms(1,2,3) rid rels by (simp add: thenE_def)
  then show ?thesis by (simp add: resolveSheetImages_def thenE_def)
qed

theorem missing_sheet_rels_witness:
  "resolveDrawing pkgNoSheetRels (JStr ''1'') = Inr None
   \<and> resolveSheetImages decimalNumber pkgNoSheetRels (JStr ''1'') = Inr []"
proof -
  have h1: "parseMetaXmlToObject pkgNoSheetRels (''xl/worksheets/sheet'' @ toString (JStr ''1'') @ ''.xml'')
            = Inr (JObj [(''worksheet'', JObj [(''sheetData'', JObj []), (''drawing'', JObj [(''r:id'', JStr ''rId1'')])])])"
    by code_simp
  have h2: "getPath (JObj [(''worksheet'', JObj [(''sheetData'', JObj []), (''drawing'', JObj [(''r:id'', JStr ''rId1'')])])])
              [''worksheet'', ''drawing''] = Inr (JObj [(''r:id'', JStr ''rId1'')])"
    by code_simp
  have h3: "truthy (JObj [(''r:id'', JStr ''rId1'')])" by simp
  have h4: "pkgNoSheetRels (''xl/worksheets/_rels/sheet'' @ toString (JStr ''1'') @ ''.xml.rels'') = None"
    by code_simp
  show ?thesis by (rule missing_sheet_rels_gives_empty [OF h1 h2 h3 h4])
qed

text \<open>
  The scenario without the worksheet's relationship part: the worksheet declares the
  drawing \<open>rId1\<close>, the part is absent, and the resolution returns the empty list.
\<close>

theorem missing_sheet_rels_counterexample:
  "getPath (xml2Obj (worksheetXml ''rId1''))
     [''worksheet'', ''drawing''] = Inr (JObj [(''r:id'', JStr ''rId1'')])
   \<and> pkgNoSheetRels ''xl/worksheets/sheet1.xml'' = Some (Xml (worksheetXml ''rId1''))
   \<and> pkgNoSheetRels ''xl/worksheets/_rels/sheet1.xml.rels'' = None
   \<and> resolveSheetImages decimalNumber pkgNoSheetRels (JStr ''1'') = Inr []"
  by code_simp

subsection \<open>One-cell anchors\<close>

text \<open>
  C3. Both anchor collections should be lists even when one element is present. The
  always-array names of \<^verbatim>\<open>_xml2Obj\<close> lack \<^verbatim>\<open>xdr:oneCellAnchor\<close>: a drawing with exactly one
  one-cell anchor gives an object under that key, not an array, and the sheet's resolution
  ends in a \<open>TypeError\<close> instead of yielding the anchor.
\<close>

theorem single_oneCellAnchor_TypeError:
  "getPath (xml2Obj (drawingXml [oneCellAnchor ''rId1'' ''1'' ''2'']))
     [''xdr:wsDr'', ''xdr:oneCellAnchor'']
   = Inr (JObj [(''xdr:from'', JObj [(''xdr:col'', JStr ''1''), (''xdr:row'', JStr ''2'')]),
                (''xdr:pic'',
                 JObj [(''xdr:blipFill'', JObj [(''a:blip'', JObj [(''r:embed'', JStr ''rId1'')])])])])
   \<and> resolveSheetImages decimalNumber pkgOneCell (JStr ''1'') = Inl TypeError"
  by code_simp

text \<open>
  C5. An anchor without a declared \<open>to\<close> pair gets \<open>to = from\<close>, both from the declared
  \<open>from\<close> pair; an anchor with a declared \<open>to\<close> pair gets \<open>from\<close> and \<open>to\<close> from the
  respective declared pairs.
\<close>

theorem anchor_from_to:
  assumes "getPath anchor [''xdr:pic'', ''xdr:blipFill'', ''a:blip'', ''r:embed''] = Inr rid"
      and "getProp anchor ''xdr:from'' = Inr f"
      and "getProp f ''xdr:row'' = Inr fr"
      and "getProp f ''xdr:col'' = Inr fc"
      and "getProp anchor ''xdr:to'' = Inr t"
  shows "(\<not> truthy t \<longrightarrow>
            parseAnchor num anchor
            = Inr (rid, \<lparr>fromCell = \<lparr>row = num fr, col = num fc\<rparr>,
                         toCell = \<lparr>row = num fr, col = num fc\<rparr>\<rparr>))
       \<and> (truthy t \<longrightarrow>
            (\<exists>tr tc. getProp t ''xdr:row'' = Inr tr \<and> getProp t ''xdr:col'' = Inr tc
               \<and> parseAnchor num anchor
                 = Inr (rid, \<lparr>fromCell = \<lparr>row = num fr, col = num fc\<rparr>,
                              toCell = \<lparr>row = num tr, col = num tc\<rparr>\<rparr>)))"
proof (intro conjI impI)
  assume "\<not> truthy t"
  then show "parseAnchor num anchor
            = Inr (rid, \<lparr>fromCell = \<lparr>row = num fr, col = num fc\<rparr>,
                         toCell = \<lparr>row = num fr, col = num fc\<rparr>\<rparr>)"
    using assms by (simp add: parseAnchor_def thenE_def)
next
  assume tt: "truthy t"
  obtain tr where tr: "getProp t ''xdr:row'' = Inr tr" using getProp_truthy [OF tt] by blast
  obtain tc where tc: "getProp t ''xdr:col'' = Inr tc" using getProp_truthy [OF tt] by blast
  have "parseAnchor num anchor
                 = Inr (rid, \<lparr>fromCell = \<lparr>row = num fr, col = num fc\<rparr>,
                              toCell = \<lparr>row = num tr, col = num tc\<rparr>\<rparr>)"
    using assms tt tr tc by (simp add: parseAnchor_def thenE_def)
  with tr tc show "\<exists>tr tc. getProp t ''xdr:row'' = Inr tr \<and> getProp t ''xdr:col'' = Inr tc
               \<and> parseAnchor num anchor
                 = Inr (rid, \<lparr>fromCell = \<lparr>row = num fr, col = num fc\<rparr>,
                              toCell = \<lparr>row = num tr, col = num tc\<rparr>\<rparr>)"
    by blast
qed

theorem anchor_from_to_witness:
  "parseAnchor decimalNumber (mergeInner (compactOf alwaysArray (oneCellAnchor ''rId1'' ''1'' ''2'')))
     = Inr (JStr ''rId1'', \<lparr>fromCell = \<lparr>row = Index 2, col = Index 1\<rparr>,
                              toCell = \<lparr>row = Index 2, col = Index 1\<rparr>\<rparr>)
   \<and> parseAnchor decimalNumber
         (mergeInner (compactOf alwaysArray (twoCellAnchor ''rId1'' ''1'' ''2'' ''3'' ''4'')))
     = Inr (JStr ''rId1'', \<lparr>fromCell = \<lparr>row = Index 2, col = Index 1\<rparr>,
                              toCell = \<lparr>row = Index 4, col = Index 3\<rparr>\<rparr>)"
proof -
  let ?one = "mergeInner (compactOf alwaysArray (oneCellAnchor ''rId1'' ''1'' ''2''))"
  let ?two = "mergeInner (compactOf alwaysArray (twoCellAnchor ''rId1'' ''1'' ''2'' ''3'' ''4''))"
  let ?f = "JObj [(''xdr:col'', JStr ''1''), (''xdr:row'', JStr ''2'')]"
  let ?t = "JObj [(''xdr:col'', JStr ''3''), (''xdr:row'', JStr ''4'')]"
  have n: "decimalNumber (JStr ''1'') = Index 1" "decimalNumber (JStr ''2'') = Index 2"
          "decimalNumber (JStr ''3'') = Index 3" "decimalNumber (JStr ''4'') = Index 4"
    by code_simp+
  have a1: "getPath ?one [''xdr:pic'', ''xdr:blipFill'', ''a:blip'', ''r:embed''] = Inr (JStr ''rId1'')"
    by code_simp
  have a2: "getProp ?one ''xdr:from'' = Inr ?f" by code_simp
  have a3: "getProp ?f ''xdr:row'' = Inr (JStr ''2'')" by code_simp
  have a4: "getProp ?f ''xdr:col'' = Inr (JStr ''1'')" by code_simp
  have a5: "getProp ?one ''xdr:to'' = Inr JUndef" by code_simp
  have b1: "getPath ?two [''xdr:pic'', ''xdr:blipFill'', ''a:blip'', ''r:embed''] = Inr (JStr ''rId1'')"
    by code_simp
  have b2: "getProp ?two ''xdr:from'' = Inr ?f" by code_simp
  have b5: "getProp ?two ''xdr:to'' = Inr ?t" by code_simp
  have t3: "getProp ?t ''xdr:row'' = Inr (JStr ''4'')" by code_simp
  have t4: "getProp ?t ''xdr:col'' = Inr (JStr ''3'')" by code_simp
  have one: "parseAnchor decimalNumber ?one
     = Inr (JStr ''rId1'', \<lparr>fromCell = \<lparr>row = Index 2, col = Index 1\<rparr>,
                              toCell = \<lparr>row = Index 2, col = Index 1\<rparr>\<rparr>)"
    using anchor_from_to [OF a1 a2 a3 a4 a5, of decimalNumber] by (simp add: n)
  have two: "parseAnchor decimalNumber ?two
     = Inr (JStr ''rId1'', \<lparr>fromCell = \<lparr>row = Index 2, col = Index 1\<rparr>,
                              toCell = \<lparr>row = Index 4, col = Index 3\<rparr>\<rparr>)"
    using anchor_from_to [OF b1 b2 a3 a4 b5, of decimalNumber] by (simp add: n t3 t4)
  from one two show ?thesis by (rule conjI)
qed

subsection \<open>The join of anchors and relationships\<close>




text \<open>
  The two texts of the resolver on one image anchored twice by two-cell anchors: the later
  one gives a location per anchor, the earlier one a single location, that of the last
  anchor.
\<close>

lemma later_and_earlier_on_two_anchors:
  "sheetImages decimalNumber (package ''rId1'' drawingTarget [] [] image1)
     (xml2Obj (drawingXml [twoCellAnchor ''rId1'' ''1'' ''2'' ''3'' ''4'',
                           twoCellAnchor ''rId1'' ''5'' ''6'' ''7'' ''8'']))
     (xml2Obj (relsXml [relationship ''rId1'' ''../media/image1.png'']))
   = Inr [\<lparr>fromCell = \<lparr>row = Index 2, col = Index 1\<rparr>, toCell = \<lparr>row = Index 4, col = Index 3\<rparr>,
            imageFile = Some (''image1.png'', png)\<rparr>,
          \<lparr>fromCell = \<lparr>row = Index 6, col = Index 5\<rparr>, toCell = \<lparr>row = Index 8, col = Index 7\<rparr>,
            imageFile = Some (''image1.png'', png)\<rparr>]
   \<and> sheetImages_earlier decimalNumber (package ''rId1'' drawingTarget [] [] image1)
     (xml2Obj (drawingXml [twoCellAnchor ''rId1'' ''1'' ''2'' ''3'' ''4'',
                           twoCellAnchor ''rId1'' ''5'' ''6'' ''7'' ''8'']))
     (xml2Obj (relsXml [relationship ''rId1'' ''../media/image1.png'']))
   = Inr [\<lparr>fromCell = \<lparr>row = Index 6, col = Index 5\<rparr>, toCell = \<lparr>row = Index 8, col = Index 7\<rparr>,
            imageFile = Some (''image1.png'', png)\<rparr>]"
  by code_simp

text \<open>
  The scenario of the specification: the sheet "Data" resolves to the one location of
  \<^verbatim>\<open>image1.png\<close> from row 2, column 1 to row 4, column 3.
\<close>

lemma scenario_resolve:
  "resolveImageLocations decimalNumber (workbookOf pkgScenario)
   = Inr ([(''Data'',
            [\<lparr>fromCell = \<lparr>row = Index 2, col = Index 1\<rparr>, toCell = \<lparr>row = Index 4, col = Index 3\<rparr>,
               imageFile = Some (''image1.png'', png)\<rparr>])], None)"
  by code_simp

text \<open>
  C7. For a sheet whose drawing can be read, a relationship of the drawing's table without
  any anchor makes the resolution of the sheet fail with the error
  \<^verbatim>\<open>image anchor not found\<close>; when the sheets before it resolve, that error is the outcome of
  the whole resolution and of the transformation, which calls no callback.
\<close>

theorem orphan_relationship_fails:
  assumes "resolveSheetMap (files wb) = Inr sheetMap"
      and "SheetNames wb = pre @ sheetName # post"
      and "\<forall>n \<in> set pre. \<exists>sh' images. mapGet sheetMap (JStr n) = Some sh'
             \<and> resolveSheetImages num (files wb) (id_sheet sh') = Inr images"
      and "mapGet sheetMap (JStr sheetName) = Some sh"
      and "resolveDrawing (files wb) (id_sheet sh) = Inr (Some (drawingXmlObj, drawingRelXmlObj))"
      and "anchorsOfDrawing num drawingXmlObj = Inr ps"
      and "relationsOfDrawing drawingRelXmlObj = Inr rels"
      and "rel \<in> set rels" and "anchorsFor ps (fst rel) = []"
  shows "resolveSheetImages num (files wb) (id_sheet sh) = Inl (Error ''image anchor not found'')
       \<and> resolveImageLocations num wb = Inl (Error ''image anchor not found'')
       \<and> transformImagesToStr X num cb (Some wb) w = (Inl (Error ''image anchor not found''), w)"
proof -
  from sheetImages_flatMap [OF assms(6,7), of "files wb"] obtain m rs where
    "\<forall>k. mapGet m k = grouped ps k" "mapE relationOf rs = Inr rels"
    "sheetImages num (files wb) drawingXmlObj drawingRelXmlObj = flatMap (relationImages (files wb) m) rs"
    by blast
  then have "sheetImages num (files wb) drawingXmlObj drawingRelXmlObj
             = Inl (Error ''image anchor not found'')"
    using flatMap_orphan [OF _ _ assms(8,9)] by simp
  then have s: "resolveSheetImages num (files wb) (id_sheet sh) = Inl (Error ''image anchor not found'')"
    using assms(5) by (simp add: resolveSheetImages_def)
  have "resolveAllSheetImages num (files wb) sheetMap (pre @ sheetName # post) ([], None)
        = Inl (Error ''image anchor not found'')"
    using assms(3,4) s by (rule resolveAllSheetImages_first_failure)
  then have r: "resolveImageLocations num wb = Inl (Error ''image anchor not found'')"
    using assms(1,2) by (simp add: resolveImageLocations_def)
  from s r transformImagesToStr_resolve_error [OF r] show ?thesis by simp
qed

theorem orphan_relationship_fails_witness:
  "resolveSheetImages decimalNumber pkgOrphanRel (JStr ''1'') = Inl (Error ''image anchor not found'')
   \<and> resolveImageLocations decimalNumber (workbookOf pkgOrphanRel) = Inl (Error ''image anchor not found'')
   \<and> transformImagesToStr gridSheets decimalNumber cbUpload (Some (workbookOf pkgOrphanRel)) 0
       = (Inl (Error ''image anchor not found''), 0)"
proof -
  let ?wb = "workbookOf pkgOrphanRel"
  let ?sh = "\<lparr>id_sheet = JStr ''1'', name_sheet = JStr ''Data''\<rparr>"
  let ?dx = "xml2Obj (drawingXml [twoCellAnchor ''rId1'' ''1'' ''2'' ''3'' ''4''])"
  let ?dr = "xml2Obj (relsXml [relationship ''rId1'' ''../media/image1.png'',
                               relationship ''rId2'' ''../media/image2.png''])"
  let ?ps = "[(JStr ''rId1'', \<lparr>fromCell = \<lparr>row = Index 2, col = Index 1\<rparr>,
                                  toCell = \<lparr>row = Index 4, col = Index 3\<rparr>\<rparr>)]"
  let ?rels = "[(JStr ''rId1'', ''../media/image1.png''), (JStr ''rId2'', ''../media/image2.png'')]"
  have f: "files ?wb = pkgOrphanRel" by (simp add: workbookOf_def)
  have i: "id_sheet ?sh = JStr ''1''" by simp
  have g1: "resolveSheetMap (files ?wb) = Inr [(JStr ''Data'', ?sh)]" unfolding f by code_simp
  have g2: "SheetNames ?wb = [] @ ''Data'' # []" by (simp add: workbookOf_def)
  have g3: "\<forall>n \<in> set []. \<exists>sh' images. mapGet [(JStr ''Data'', ?sh)] (JStr n) = Some sh'
             \<and> resolveSheetImages decimalNumber (files ?wb) (id_sheet sh') = Inr images" by simp
  have g4: "mapGet [(JStr ''Data'', ?sh)] (JStr ''Data'') = Some ?sh" by simp
  have h0: "resolveDrawing (files ?wb) (id_sheet ?sh) = Inr (Some (?dx, ?dr))"
    unfolding f i by code_simp
  have h1: "anchorsOfDrawing decimalNumber ?dx = Inr ?ps" by code_simp
  have h2: "relationsOfDrawing ?dr = Inr ?rels" by code_simp
  have h3: "(JStr ''rId2'', ''../media/image2.png'') \<in> set ?rels" by simp
  have h4: "anchorsFor ?ps (fst (JStr ''rId2'', ''../media/image2.png'')) = []" by code_simp
  show ?thesis
    using orphan_relationship_fails [OF g1 g2 g3 g4 h0 h1 h2 h3 h4, of gridSheets cbUpload 0]
    unfolding f i .
qed

text \<open>
  A chart is the usual origin of such a relationship, and its anchor holds no picture: the
  resolver throws a \<open>TypeError\<close> on reading the anchor, before it looks at the
  relationships.
\<close>

theorem chart_anchor_counterexample:
  "relationsOfDrawing (xml2Obj (relsXml [relationship ''rId1'' ''../media/image1.png'',
                                         relationship ''rId2'' ''../charts/chart1.xml'']))
   = Inr [(JStr ''rId1'', ''../media/image1.png''), (JStr ''rId2'', ''../charts/chart1.xml'')]
   \<and> parseAnchor decimalNumber
       (mergeInner (compactOf alwaysArray (chartAnchor ''rId2'' ''5'' ''6'' ''7'' ''8''))) = Inl TypeError
   \<and> resolveSheetImages decimalNumber pkgChart (JStr ''1'') = Inl TypeError
   \<and> resolveImageLocations decimalNumber (workbookOf pkgChart) = Inl TypeError"
  by code_simp



subsection \<open>The rewrite\<close>

text \<open>
  C6. When the transformation completes, the callback has been called exactly once per
  image location of the resolved map, in the order in which the map enumerates them, each
  call starting from the world the previous one left. Every sheet of the map ends as the
  sheet to which the grid read from it, after the writes of its locations, was added back;
  a write puts the resolved string at the \<open>from\<close> cell of its location: a cell that is the
  \<open>from\<close> cell of no location keeps its content, and the \<open>from\<close> cell of a location holds
  the string resolved for the last location anchored there.
\<close>

theorem transform_calls_and_writes:
  assumes "resolveImageLocations num wb = Inr L"
      and "succeeded (fst (transformImagesToStr X num cb (Some wb) w))"
  shows "snd (snd (transformImagesToStr X num (traced cb) (Some wb) (w, [])))
           = map (\<lambda>l. (imageFile l, fromCell l)) (concat (map snd (fst L)))
       \<and> map (\<lambda>p. (fst p, map fst (snd p))) (sheetWrites cb (fst L) w) = fst L
       \<and> (\<forall>sheetName.
            sheetAfter (fst (transformImagesToStr X num cb (Some wb) w)) sheetName
            = committed X wb (sheetWrites cb (fst L) w) sheetName)
       \<and> (\<forall>data ws r c.
            (\<forall>p \<in> set ws. fromCell (fst p) \<noteq> \<lparr>row = Index r, col = Index c\<rparr>)
            \<longrightarrow> cellAt (writes data ws) r c = cellAt data r c)
       \<and> (\<forall>data pre l s post r c.
            fromCell l = \<lparr>row = Index r, col = Index c\<rparr>
            \<longrightarrow> (\<forall>p \<in> set post. fromCell (fst p) \<noteq> \<lparr>row = Index r, col = Index c\<rparr>)
            \<longrightarrow> cellAt (writes data (pre @ (l, s) # post)) r c = Some s)"
proof -
  from transformImagesToStr_succeeded [OF assms] obtain wb' w' where
    t: "transformSheets X cb (fst L) wb w = (Inr wb', w')"
    and T: "transformImagesToStr X num cb (Some wb) w = (Inr wb', w')" by blast
  have calls: "snd (snd (transformImagesToStr X num (traced cb) (Some wb) (w, [])))
           = map (\<lambda>l. (imageFile l, fromCell l)) (concat (map snd (fst L)))"
    using assms(1) traced_succeeded [OF assms] by (rule transformImagesToStr_calls)
  have locs: "map (\<lambda>p. (fst p, map fst (snd p))) (sheetWrites cb (fst L) w) = fst L"
    using t by (rule sheetWrites_locations)
  have d: "distinct (map fst (fst L))"
    using assms(1) by (rule resolveImageLocations_distinct)
  have sheets: "\<forall>sheetName.
            sheetAfter (fst (transformImagesToStr X num cb (Some wb) w)) sheetName
            = committed X wb (sheetWrites cb (fst L) w) sheetName"
    using transformSheets_sheets [OF t d] T by (simp add: sheetAfter_def)
  have untouched: "\<forall>data ws r c.
            (\<forall>p \<in> set ws. fromCell (fst p) \<noteq> \<lparr>row = Index r, col = Index c\<rparr>)
            \<longrightarrow> cellAt (writes data ws) r c = cellAt data r c"
    by (intro allI impI) (rule writes_untouched)
  have last: "\<forall>data pre l s post r c.
            fromCell l = \<lparr>row = Index r, col = Index c\<rparr>
            \<longrightarrow> (\<forall>p \<in> set post. fromCell (fst p) \<noteq> \<lparr>row = Index r, col = Index c\<rparr>)
            \<longrightarrow> cellAt (writes data (pre @ (l, s) # post)) r c = Some s"
    by (intro allI impI) (rule writes_last)
  from calls locs sheets untouched last show ?thesis by (intro conjI)
qed

theorem transform_calls_and_writes_witness:
  "snd (snd (transformImagesToStr gridSheets decimalNumber (traced cbUpload)
               (Some (workbookOf pkgFanOut)) (0, [])))
   = [(Some (''image1.png'', png), \<lparr>row = Index 2, col = Index 1\<rparr>),
      (Some (''image1.png'', png), \<lparr>row = Index 4, col = Index 3\<rparr>),
      (Some (''image1.png'', png), \<lparr>row = Index 6, col = Index 5\<rparr>)]
   \<and> sheetAfter (fst (transformImagesToStr gridSheets decimalNumber cbUpload
                         (Some (workbookOf pkgFanOut)) 0)) ''Data''
     = Some [Some [Some ''id'', Some ''photo''], Some [Some ''7''],
             Some [None, Some ''https://cdn/image1.png''], None,
             Some [None, None, None, Some ''https://cdn/image1.png''], None,
             Some [None, None, None, None, None, Some ''https://cdn/image1.png'']]
   \<and> cellAt (writes grid0
        [(\<lparr>fromCell = \<lparr>row = Index 6, col = Index 5\<rparr>, toCell = \<lparr>row = Index 8, col = Index 7\<rparr>,
            imageFile = Some (''image1.png'', png)\<rparr>, ''https://cdn/image1.png'')]) 8 7
     = cellAt grid0 8 7"
proof -
  let ?f = "Some (''image1.png'', png)"
  let ?u = "''https://cdn/image1.png''"
  let ?l3 = "\<lparr>fromCell = \<lparr>row = Index 6, col = Index 5\<rparr>, toCell = \<lparr>row = Index 8, col = Index 7\<rparr>,
               imageFile = ?f\<rparr>"
  let ?own = "[(''Data'',
              [\<lparr>fromCell = \<lparr>row = Index 2, col = Index 1\<rparr>, toCell = \<lparr>row = Index 2, col = Index 1\<rparr>,
                 imageFile = ?f\<rparr>,
               \<lparr>fromCell = \<lparr>row = Index 4, col = Index 3\<rparr>, toCell = \<lparr>row = Index 4, col = Index 3\<rparr>,
                 imageFile = ?f\<rparr>, ?l3])]"
  let ?L = "(?own, None :: imageMetadata list option)"
  let ?wb = "workbookOf pkgFanOut"
  have r: "resolveImageLocations decimalNumber ?wb = Inr ?L" by code_simp
  have s0: "succeeded (fst (transformSheets gridSheets cbUpload (fst ?L) ?wb 0))" by code_simp
  have ik: "inheritedKeys ?L = []" by (simp add: inheritedKeys_def)
  have s: "succeeded (fst (transformImagesToStr gridSheets decimalNumber cbUpload (Some ?wb) 0))"
    using r s0 ik by (rule transformImagesToStr_succeededI)
  note T = transform_calls_and_writes [OF r s]
  have v: "map (\<lambda>l. (imageFile l, fromCell l)) (concat (map snd (fst ?L)))
           = [(?f, \<lparr>row = Index 2, col = Index 1\<rparr>), (?f, \<lparr>row = Index 4, col = Index 3\<rparr>),
              (?f, \<lparr>row = Index 6, col = Index 5\<rparr>)]"
    by code_simp
  have calls: "snd (snd (transformImagesToStr gridSheets decimalNumber (traced cbUpload) (Some ?wb) (0, [])))
           = [(?f, \<lparr>row = Index 2, col = Index 1\<rparr>), (?f, \<lparr>row = Index 4, col = Index 3\<rparr>),
              (?f, \<lparr>row = Index 6, col = Index 5\<rparr>)]"
    using T [THEN conjunct1] unfolding v .
  have c: "committed gridSheets ?wb (sheetWrites cbUpload (fst ?L) 0) ''Data''
     = Some [Some [Some ''id'', Some ''photo''], Some [Some ''7''],
             Some [None, Some ?u], None,
             Some [None, None, None, Some ?u], None,
             Some [None, None, None, None, None, Some ?u]]"
    by code_simp
  have sheet: "sheetAfter (fst (transformImagesToStr gridSheets decimalNumber cbUpload (Some ?wb) 0)) ''Data''
     = Some [Some [Some ''id'', Some ''photo''], Some [Some ''7''],
             Some [None, Some ?u], None,
             Some [None, None, None, Some ?u], None,
             Some [None, None, None, None, None, Some ?u]]"
    using T [THEN conjunct2, THEN conjunct2, THEN conjunct1, rule_format, of "''Data''"]
    unfolding c .
  have other: "cellAt (writes grid0 [(?l3, ?u)]) 8 7 = cellAt grid0 8 7"
    using T [THEN conjunct2, THEN conjunct2, THEN conjunct2, THEN conjunct1, rule_format,
             of "[(?l3, ?u)]" 8 7 grid0]
    by simp
  from calls sheet other show ?thesis by (intro conjI)
qed

text \<open>
  The order of the calls is not the order in which the drawing declares its anchors: the
  resolver goes through the relationship table and emits the anchors of each relationship.
\<close>

theorem calls_not_in_declaration_order:
  "declarationOrder decimalNumber
     [twoCellAnchor ''rId2'' ''5'' ''6'' ''7'' ''8'', twoCellAnchor ''rId1'' ''1'' ''2'' ''3'' ''4'']
   = Inr [\<lparr>row = Index 6, col = Index 5\<rparr>, \<lparr>row = Index 2, col = Index 1\<rparr>]
   \<and> map snd (snd (snd (transformImagesToStr gridSheets decimalNumber (traced cbUpload)
                           (load (workbookOf pkgTwoImages)) (0, []))))
     = [\<lparr>row = Index 2, col = Index 1\<rparr>, \<lparr>row = Index 6, col = Index 5\<rparr>]"
proof -
  let ?own = "[(''Data'',
              [\<lparr>fromCell = \<lparr>row = Index 2, col = Index 1\<rparr>, toCell = \<lparr>row = Index 4, col = Index 3\<rparr>,
                 imageFile = Some (''image1.png'', png)\<rparr>,
               \<lparr>fromCell = \<lparr>row = Index 6, col = Index 5\<rparr>, toCell = \<lparr>row = Index 8, col = Index 7\<rparr>,
                 imageFile = Some (''image2.png'', Binary [255, 216])\<rparr>])]"
  let ?L = "(?own, None :: imageMetadata list option)"
  have d: "declarationOrder decimalNumber
     [twoCellAnchor ''rId2'' ''5'' ''6'' ''7'' ''8'', twoCellAnchor ''rId1'' ''1'' ''2'' ''3'' ''4'']
   = Inr [\<lparr>row = Index 6, col = Index 5\<rparr>, \<lparr>row = Index 2, col = Index 1\<rparr>]"
    by code_simp
  have r: "resolveImageLocations decimalNumber (workbookOf pkgTwoImages) = Inr ?L"
    by code_simp
  have t: "map snd (snd (snd (transformSheets gridSheets (traced cbUpload) (fst ?L)
                                (workbookOf pkgTwoImages) (0, []))))
           = [\<lparr>row = Index 2, col = Index 1\<rparr>, \<lparr>row = Index 6, col = Index 5\<rparr>]"
    by code_simp
  have e: "snd (transformImagesToStr gridSheets decimalNumber (traced cbUpload)
             (load (workbookOf pkgTwoImages)) (0, []))
           = snd (transformSheets gridSheets (traced cbUpload) (fst ?L) (workbookOf pkgTwoImages) (0, []))"
    unfolding load_def using r by (rule transformImagesToStr_world)
  show ?thesis unfolding e using d t by (rule conjI)
qed

text \<open>
  A sheet named \<^verbatim>\<open>__proto__\<close> is no key of the resolved map: its locations become the
  prototype, whose indices the loop of the transformation meets after the own keys.
\<close>

lemma sheet_named_proto:
  "assignSheet ([(''Data'', [])], None) ''__proto__''
     [\<lparr>fromCell = \<lparr>row = Index 2, col = Index 1\<rparr>, toCell = \<lparr>row = Index 4, col = Index 3\<rparr>,
        imageFile = None\<rparr>]
   = ([(''Data'', [])],
      Some [\<lparr>fromCell = \<lparr>row = Index 2, col = Index 1\<rparr>, toCell = \<lparr>row = Index 4, col = Index 3\<rparr>,
              imageFile = None\<rparr>])
   \<and> inheritedKeys ([(''Data'', [])],
      Some [\<lparr>fromCell = \<lparr>row = Index 2, col = Index 1\<rparr>, toCell = \<lparr>row = Index 4, col = Index 3\<rparr>,
              imageFile = None\<rparr>]) = [''0'']"
  by code_simp

subsection \<open>Writing into the grid\<close>

text \<open>
  C8. A write whose row index lies beyond the rows of the grid does not fail: the grid
  grows up to that row, the new row grows up to the column, and the string is stored at
  \<open>[row][col]\<close>.
\<close>

theorem write_beyond_rows:
  assumes "length data \<le> r"
  shows "writeCell data \<lparr>row = Index r, col = Index c\<rparr> str
         = data @ replicate (r - length data) None @ [Some (replicate c None @ [Some str])]"
  using assms by (simp add: writeCell_def getIndex_def setIndex_def)

theorem write_beyond_rows_witness:
  "length [Some [Some ''a'']] \<le> (3::nat) \<and>
   writeCell [Some [Some ''a'']] \<lparr>row = Index 3, col = Index 2\<rparr> ''u''
     = [Some [Some ''a''], None, None, Some [None, None, Some ''u'']]"
proof -
  have h: "length [Some [Some ''a'']] \<le> (3::nat)" by simp
  show ?thesis using h write_beyond_rows [OF h, of 2 "''u''"] by (simp add: numeral_eq_Suc)
qed

subsection \<open>Before \<^verbatim>\<open>load\<close>\<close>

text \<open>
  C9. Every public operation called before \<^verbatim>\<open>load\<close> should fail with the not-loaded error.
  \<^verbatim>\<open>getData\<close> does; \<^verbatim>\<open>transformImagesToStr\<close> has no such assertion and fails with the
  \<open>TypeError\<close> of reading \<^verbatim>\<open>this.imageResolver\<close>.
\<close>

theorem transform_before_load:
  "transformImagesToStr X num cb None w = (Inl TypeError, w)
   \<and> getData X None = Inl ErrorNotLoaded"
  by (simp add: transformImagesToStr_def getData_def assertHasLoaded_def thenE_def)

end
